theory Spec2Isabelle
  imports Main
begin

section \<open>Formatting and machine integers\<close>

text \<open>
  Go strings are byte sequences, modelled as \<open>string\<close>. \<open>fmt_d\<close> is the \<open>%d\<close> verb of
  \<open>fmt.Sprintf\<close>: decimal digits, with a leading minus sign for a negative value.
\<close>

type_synonym bytes = string

definition digit_char :: "nat \<Rightarrow> char" where
  "digit_char n = ''0123456789'' ! n"

fun digits_nat :: "nat \<Rightarrow> string" where
  "digits_nat n = (if n < 10 then [digit_char n] else digits_nat (n div 10) @ [digit_char (n mod 10)])"

declare digits_nat.simps [simp del]

definition fmt_d :: "int \<Rightarrow> string" where
  "fmt_d i = (if i < 0 then CHR ''-'' # digits_nat (nat (- i)) else digits_nat (nat i))"

text \<open>
  \<open>int64\<close> arithmetic wraps around: \<open>wrap64\<close> reads an integer result as the two's
  complement value Go keeps. \<open>time.Duration\<close> is an \<open>int64\<close> count of nanoseconds.
\<close>

definition wrap64 :: "int \<Rightarrow> int" where
  "wrap64 x = (x + 2 ^ 63) mod 2 ^ 64 - 2 ^ 63"

definition Second :: int where
  "Second = 1000000000"

definition Minute :: int where
  "Minute = 60 * Second"

section \<open>OAuth state token\<close>

text \<open>
  \<open>time.Now().Unix()\<close>: the instant is a count of nanoseconds since the epoch, \<open>Unix\<close> its
  whole seconds. \<open>PerformOAuthFlow_state\<close> is the line
  \<^verbatim>\<open>state := fmt.Sprintf("state-%d", time.Now().Unix())\<close> of \<open>PerformOAuthFlow\<close>.
\<close>

definition Unix :: "int \<Rightarrow> int" where
  "Unix t = t div Second"

definition PerformOAuthFlow_state :: "int \<Rightarrow> string" where
  "PerformOAuthFlow_state now = ''state-'' @ fmt_d (Unix now)"

section \<open>Local cache\<close>

text \<open>
  The cache directory is a map from paths to files. A path that \<open>os.ReadFile\<close> cannot
  read (a directory, a file without read permission) is \<open>Unreadable\<close>. Instants are
  counts of nanoseconds, so \<open>t.After(u)\<close> is \<open>t > u\<close>. \<open>os.Remove\<close> and
  \<open>os.WriteFile\<close> are taken to succeed on the private cache directory.
\<close>

datatype node = File bytes | Unreadable

type_synonym fs = "string \<rightharpoonup> node"

record Entry =
  Data :: bytes
  ExpiresAt :: int
  CreatedAt :: int

record Cache =
  dir :: string
  ttl :: int

definition DefaultTTL :: int where
  "DefaultTTL = 10 * Minute"

text \<open>
  The library functions the cache calls: \<open>Sum256Hex\<close> is
  \<open>hex.EncodeToString\<close> of \<open>sha256.Sum256\<close>, \<open>UnmarshalEntry\<close> is \<open>json.Unmarshal\<close> into
  an \<open>Entry\<close> (\<open>None\<close> when it returns an error) and \<open>MarshalEntry\<close> is \<open>json.Marshal\<close>.
\<close>

record lib =
  Sum256Hex :: "string \<Rightarrow> string"
  UnmarshalEntry :: "bytes \<Rightarrow> Entry option"
  MarshalEntry :: "Entry \<Rightarrow> bytes option"

definition ReadFile :: "fs \<Rightarrow> string \<Rightarrow> bytes option" where
  "ReadFile files path = (case files path of Some (File b) \<Rightarrow> Some b | _ \<Rightarrow> None)"

definition Remove :: "fs \<Rightarrow> string \<Rightarrow> fs" where
  "Remove files path = files(path := None)"

definition WriteFile :: "fs \<Rightarrow> string \<Rightarrow> bytes \<Rightarrow> fs" where
  "WriteFile files path b = files(path \<mapsto> File b)"

definition keyToPath :: "lib \<Rightarrow> Cache \<Rightarrow> string \<Rightarrow> string" where
  "keyToPath L c key = dir c @ ''/'' @ Sum256Hex L key @ ''.json''"

text \<open>\<open>Cache.Get\<close> returns the data, the found flag and the directory it leaves.\<close>

definition Get :: "lib \<Rightarrow> int \<Rightarrow> Cache \<Rightarrow> fs \<Rightarrow> string \<Rightarrow> bytes \<times> bool \<times> fs" where
  "Get L now c files key =
     (let path = keyToPath L c key in
      case ReadFile files path of
        None \<Rightarrow> ([], False, files)
      | Some raw \<Rightarrow>
          (case UnmarshalEntry L raw of
             None \<Rightarrow> ([], False, Remove files path)
           | Some entry \<Rightarrow>
               if now > ExpiresAt entry then ([], False, Remove files path)
               else (Data entry, True, files)))"

text \<open>\<open>Cache.Set\<close> and \<open>Cache.Delete\<close> return the error, if any, and the directory.\<close>

definition Set_entry :: "lib \<Rightarrow> int \<Rightarrow> Cache \<Rightarrow> fs \<Rightarrow> string \<Rightarrow> bytes \<Rightarrow> string option \<times> fs" where
  "Set_entry L now c files key b =
     (case MarshalEntry L \<lparr>Data = b, ExpiresAt = now + ttl c, CreatedAt = now\<rparr> of
        None \<Rightarrow> (Some ''failed to marshal cache entry'', files)
      | Some entryData \<Rightarrow> (None, WriteFile files (keyToPath L c key) entryData))"

definition Delete :: "lib \<Rightarrow> Cache \<Rightarrow> fs \<Rightarrow> string \<Rightarrow> string option \<times> fs" where
  "Delete L c files key = (None, Remove files (keyToPath L c key))"

section \<open>API client\<close>

record Client =
  subdomain :: string
  authHeader :: string
  cache :: "Cache option"
  useCache :: bool

text \<open>
  A request body is kept as the JSON value that \<open>json.Marshal\<close> writes. An object is
  the list of its fields; \<open>field\<close> looks one up.
\<close>

datatype json = JString string | JInt int | JBool bool | JStrings "string list"
  | JObject "(string \<times> json) list"

fun field :: "string \<Rightarrow> json \<Rightarrow> json option" where
  "field k (JObject fs) = map_of fs k"
| "field k _ = None"

record Request =
  reqMethod :: string
  reqURL :: string
  reqAuthorization :: string
  reqBody :: "json option"

record Response =
  respStatusCode :: int
  respBody :: bytes
  respRetryAfter :: string

text \<open>\<open>httpClient.Do\<close>: a transport error (\<open>Inl\<close>) or the response.\<close>

type_synonym transport = "Request \<Rightarrow> string + Response"

definition GetBaseURL :: "Client \<Rightarrow> string" where
  "GetBaseURL c = ''https://'' @ subdomain c @ ''.zendesk.com/api/v2''"

definition newRequest :: "Client \<Rightarrow> string \<Rightarrow> string \<Rightarrow> json option \<Rightarrow> Request" where
  "newRequest c method path body =
     \<lparr>reqMethod = method, reqURL = GetBaseURL c @ path, reqAuthorization = authHeader c,
      reqBody = body\<rparr>"

text \<open>
  The read methods of the ticket family (\<open>ListTickets\<close>, \<open>GetTicket\<close>) share one body and
  differ in the cache key, the path, the decoder and the words of the error:
  \<open>cachedRead\<close> is that body. It returns the result, the cache directory and the requests
  sent, in order. Reading a response body (\<open>io.ReadAll\<close>) is taken to succeed.
\<close>

definition cacheLookup :: "lib \<Rightarrow> int \<Rightarrow> Client \<Rightarrow> fs \<Rightarrow> string \<Rightarrow> bytes \<times> bool \<times> fs" where
  "cacheLookup L now c files cacheKey =
     (case cache c of
        Some ch \<Rightarrow> if useCache c then Get L now ch files cacheKey else ([], False, files)
      | None \<Rightarrow> ([], False, files))"

definition cacheStore :: "lib \<Rightarrow> int \<Rightarrow> Client \<Rightarrow> fs \<Rightarrow> string \<Rightarrow> bytes \<Rightarrow> fs" where
  "cacheStore L now c files cacheKey body =
     (case cache c of
        Some ch \<Rightarrow> if useCache c then snd (Set_entry L now ch files cacheKey body) else files
      | None \<Rightarrow> files)"

definition cachedRead ::
  "lib \<Rightarrow> (bytes \<Rightarrow> 'a option) \<Rightarrow> string \<Rightarrow> transport \<Rightarrow> int \<Rightarrow> Client \<Rightarrow> fs \<Rightarrow> string \<Rightarrow> string
     \<Rightarrow> (string + 'a) \<times> fs \<times> Request list" where
  "cachedRead L decode what roundTrip now c files cacheKey path =
     (case cacheLookup L now c files cacheKey of (cached, found, files1) \<Rightarrow>
        (case (if found then decode cached else None) of
           Some v \<Rightarrow> (Inr v, files1, [])
         | None \<Rightarrow>
             (let req = newRequest c ''GET'' path None in
              case roundTrip req of
                Inl e \<Rightarrow> (Inl (''request failed: '' @ e), files1, [req])
              | Inr resp \<Rightarrow>
                  if respStatusCode resp \<noteq> 200
                  then (Inl (''failed to '' @ what @ '' (status '' @ fmt_d (respStatusCode resp)
                              @ ''): '' @ respBody resp), files1, [req])
                  else (case decode (respBody resp) of
                          None \<Rightarrow> (Inl ''failed to decode response'', files1, [req])
                        | Some v \<Rightarrow>
                            (Inr v, cacheStore L now c files1 cacheKey (respBody resp), [req])))))"

subsection \<open>Tickets\<close>

text \<open>
  \<open>QueryEscape\<close> is \<open>url.QueryEscape\<close>; the decoders are \<open>json.Unmarshal\<close> into the
  response types (\<open>None\<close> when it returns an error).
\<close>

definition ListTickets_key :: "Client \<Rightarrow> int \<Rightarrow> int \<Rightarrow> string \<Rightarrow> string" where
  "ListTickets_key c page perPage status =
     subdomain c @ '':tickets:list:'' @ fmt_d page @ '':'' @ fmt_d perPage @ '':'' @ status"

definition ListTickets_path :: "(string \<Rightarrow> string) \<Rightarrow> int \<Rightarrow> int \<Rightarrow> string \<Rightarrow> string" where
  "ListTickets_path QueryEscape page perPage status =
     ''/tickets.json?page='' @ fmt_d page @ ''&per_page='' @ fmt_d perPage
       @ (if status \<noteq> [] then ''&status='' @ QueryEscape status else [])"

definition ListTickets ::
  "lib \<Rightarrow> (string \<Rightarrow> string) \<Rightarrow> (bytes \<Rightarrow> 'r option) \<Rightarrow> transport \<Rightarrow> int \<Rightarrow> Client \<Rightarrow> fs
     \<Rightarrow> int \<Rightarrow> int \<Rightarrow> string \<Rightarrow> (string + 'r) \<times> fs \<times> Request list" where
  "ListTickets L QueryEscape decode roundTrip now c files page perPage status =
     cachedRead L decode ''list tickets'' roundTrip now c files
       (ListTickets_key c page perPage status) (ListTickets_path QueryEscape page perPage status)"

definition GetTicket_key :: "Client \<Rightarrow> int \<Rightarrow> string" where
  "GetTicket_key c ticketID = subdomain c @ '':tickets:'' @ fmt_d ticketID"

definition SearchTickets_key :: "Client \<Rightarrow> string \<Rightarrow> string" where
  "SearchTickets_key c query = subdomain c @ '':tickets:search:'' @ query"

definition GetTicket ::
  "lib \<Rightarrow> (bytes \<Rightarrow> 't option) \<Rightarrow> transport \<Rightarrow> int \<Rightarrow> Client \<Rightarrow> fs \<Rightarrow> int
     \<Rightarrow> (string + 't) \<times> fs \<times> Request list" where
  "GetTicket L decode roundTrip now c files ticketID =
     cachedRead L decode ''get ticket'' roundTrip now c files
       (GetTicket_key c ticketID) (''/tickets/'' @ fmt_d ticketID @ ''.json'')"

record CreateTicketRequest =
  ctSubject :: string
  ctDescription :: string
  ctPriority :: string
  ctType :: string
  ctStatus :: string
  ctAssigneeID :: "int option"
  ctGroupID :: "int option"
  ctTags :: "string list"

record UpdateTicketRequest =
  utSubject :: "string option"
  utPriority :: "string option"
  utStatus :: "string option"
  utAssigneeID :: "int option"
  utGroupID :: "int option"
  utTags :: "string list"
  utComment :: "(string \<times> bool) option"

text \<open>\<open>makeTicketRequest\<close>: one request with a body; any status outside 200..299 is an error.\<close>

definition makeTicketRequest ::
  "(bytes \<Rightarrow> 't option) \<Rightarrow> transport \<Rightarrow> Client \<Rightarrow> string \<Rightarrow> string \<Rightarrow> json
     \<Rightarrow> (string + 't) \<times> Request list" where
  "makeTicketRequest decode roundTrip c method path body =
     (let req = newRequest c method path (Some body) in
      case roundTrip req of
        Inl e \<Rightarrow> (Inl (''request failed: '' @ e), [req])
      | Inr resp \<Rightarrow>
          if respStatusCode resp < 200 \<or> respStatusCode resp \<ge> 300
          then (Inl (''request failed with status '' @ fmt_d (respStatusCode resp) @ '': ''
                      @ respBody resp), [req])
          else (case decode (respBody resp) of
                  None \<Rightarrow> (Inl ''failed to decode response'', [req])
                | Some t \<Rightarrow> (Inr t, [req])))"

text \<open>\<open>CreateTicket\<close> fills a map: the optional fields are added when set.\<close>

definition CreateTicket_body :: "CreateTicketRequest \<Rightarrow> json" where
  "CreateTicket_body req =
     JObject [(''ticket'', JObject (
        [(''subject'', JString (ctSubject req)),
         (''comment'', JObject [(''body'', JString (ctDescription req))])]
        @ (if ctPriority req \<noteq> [] then [(''priority'', JString (ctPriority req))] else [])
        @ (if ctType req \<noteq> [] then [(''type'', JString (ctType req))] else [])
        @ (if ctStatus req \<noteq> [] then [(''status'', JString (ctStatus req))] else [])
        @ (case ctAssigneeID req of Some a \<Rightarrow> [(''assignee_id'', JInt a)] | None \<Rightarrow> [])
        @ (case ctGroupID req of Some g \<Rightarrow> [(''group_id'', JInt g)] | None \<Rightarrow> [])
        @ (if length (ctTags req) > 0 then [(''tags'', JStrings (ctTags req))] else [])))]"

definition CreateTicket ::
  "(bytes \<Rightarrow> 't option) \<Rightarrow> transport \<Rightarrow> Client \<Rightarrow> CreateTicketRequest
     \<Rightarrow> (string + 't) \<times> Request list" where
  "CreateTicket decode roundTrip c req =
     makeTicketRequest decode roundTrip c ''POST'' ''/tickets.json'' (CreateTicket_body req)"

text \<open>
  \<open>UpdateTicket\<close> marshals the request struct: every field is \<open>omitempty\<close>, so a nil
  pointer and an empty slice are left out and a non-nil pointer is written, whatever it
  points to.
\<close>

definition UpdateTicket_body :: "UpdateTicketRequest \<Rightarrow> json" where
  "UpdateTicket_body req =
     JObject [(''ticket'', JObject (
        (case utSubject req of Some s \<Rightarrow> [(''subject'', JString s)] | None \<Rightarrow> [])
        @ (case utPriority req of Some p \<Rightarrow> [(''priority'', JString p)] | None \<Rightarrow> [])
        @ (case utStatus req of Some s \<Rightarrow> [(''status'', JString s)] | None \<Rightarrow> [])
        @ (case utAssigneeID req of Some a \<Rightarrow> [(''assignee_id'', JInt a)] | None \<Rightarrow> [])
        @ (case utGroupID req of Some g \<Rightarrow> [(''group_id'', JInt g)] | None \<Rightarrow> [])
        @ (if utTags req \<noteq> [] then [(''tags'', JStrings (utTags req))] else [])
        @ (case utComment req of
             Some (b, p) \<Rightarrow> [(''comment'', JObject [(''body'', JString b), (''public'', JBool p)])]
           | None \<Rightarrow> [])))]"

definition UpdateTicket ::
  "lib \<Rightarrow> (bytes \<Rightarrow> 't option) \<Rightarrow> transport \<Rightarrow> Client \<Rightarrow> fs \<Rightarrow> int \<Rightarrow> UpdateTicketRequest
     \<Rightarrow> (string + 't) \<times> fs \<times> Request list" where
  "UpdateTicket L decode roundTrip c files ticketID req =
     (case makeTicketRequest decode roundTrip c ''PUT'' (''/tickets/'' @ fmt_d ticketID @ ''.json'')
             (UpdateTicket_body req) of
        (Inl e, sent) \<Rightarrow> (Inl e, files, sent)
      | (Inr ticket, sent) \<Rightarrow>
          (Inr ticket,
           (case cache c of
              Some ch \<Rightarrow> snd (Delete L ch files (GetTicket_key c ticketID))
            | None \<Rightarrow> files),
           sent))"

text \<open>A field of the \<open>ticket\<close> object of a request body.\<close>

definition ticketField :: "string \<Rightarrow> json \<Rightarrow> json option" where
  "ticketField k body = (case field ''ticket'' body of Some t \<Rightarrow> field k t | None \<Rightarrow> None)"

subsection \<open>Commands of the ticket family\<close>

text \<open>
  \<open>runTicketList\<close> caps the \<open>per-page\<close> flag before it calls the client. The other list
  commands do the same before their client method, whose request path is given here.
\<close>

definition runTicketList ::
  "lib \<Rightarrow> (string \<Rightarrow> string) \<Rightarrow> (bytes \<Rightarrow> 'r option) \<Rightarrow> transport \<Rightarrow> int \<Rightarrow> Client \<Rightarrow> fs
     \<Rightarrow> int \<Rightarrow> int \<Rightarrow> string \<Rightarrow> (string + 'r) \<times> fs \<times> Request list" where
  "runTicketList L QueryEscape decode roundTrip now zdClient files page perPage status =
     (let perPage = (if perPage > 100 then 100 else perPage) in
      case ListTickets L QueryEscape decode roundTrip now zdClient files page perPage status of
        (Inl err, files1, sent) \<Rightarrow> (Inl (''failed to list tickets: '' @ err), files1, sent)
      | (Inr resp, files1, sent) \<Rightarrow> (Inr resp, files1, sent))"

definition ListUsers_path :: "int \<Rightarrow> int \<Rightarrow> string" where
  "ListUsers_path page perPage = ''/users.json?page='' @ fmt_d page @ ''&per_page='' @ fmt_d perPage"

definition ListOrganizations_path :: "int \<Rightarrow> int \<Rightarrow> string" where
  "ListOrganizations_path page perPage =
     ''/organizations.json?page='' @ fmt_d page @ ''&per_page='' @ fmt_d perPage"

definition GetOrganizationUsers_path :: "int \<Rightarrow> int \<Rightarrow> int \<Rightarrow> string" where
  "GetOrganizationUsers_path orgID page perPage =
     ''/organizations/'' @ fmt_d orgID @ ''/users.json?page='' @ fmt_d page
       @ ''&per_page='' @ fmt_d perPage"

definition GetOrganizationTickets_path :: "int \<Rightarrow> int \<Rightarrow> int \<Rightarrow> string" where
  "GetOrganizationTickets_path orgID page perPage =
     ''/organizations/'' @ fmt_d orgID @ ''/tickets.json?page='' @ fmt_d page
       @ ''&per_page='' @ fmt_d perPage"

definition ListGroups_path :: "int \<Rightarrow> int \<Rightarrow> string" where
  "ListGroups_path page perPage = ''/groups.json?page='' @ fmt_d page @ ''&per_page='' @ fmt_d perPage"

definition GetGroupUsers_path :: "int \<Rightarrow> int \<Rightarrow> int \<Rightarrow> string" where
  "GetGroupUsers_path groupID page perPage =
     ''/groups/'' @ fmt_d groupID @ ''/users.json?page='' @ fmt_d page
       @ ''&per_page='' @ fmt_d perPage"

definition GetGroupMemberships_path :: "int \<Rightarrow> int \<Rightarrow> int \<Rightarrow> string" where
  "GetGroupMemberships_path groupID page perPage =
     ''/groups/'' @ fmt_d groupID @ ''/memberships.json?page='' @ fmt_d page
       @ ''&per_page='' @ fmt_d perPage"

definition runUserList_path :: "int \<Rightarrow> int \<Rightarrow> string" where
  "runUserList_path page perPage =
     (let perPage = (if perPage > 100 then 100 else perPage) in ListUsers_path page perPage)"

definition runOrgList_path :: "int \<Rightarrow> int \<Rightarrow> string" where
  "runOrgList_path page perPage =
     (let perPage = (if perPage > 100 then 100 else perPage) in ListOrganizations_path page perPage)"

definition runOrgUsers_path :: "int \<Rightarrow> int \<Rightarrow> int \<Rightarrow> string" where
  "runOrgUsers_path orgID page perPage =
     (let perPage = (if perPage > 100 then 100 else perPage)
      in GetOrganizationUsers_path orgID page perPage)"

definition runOrgTickets_path :: "int \<Rightarrow> int \<Rightarrow> int \<Rightarrow> string" where
  "runOrgTickets_path orgID page perPage =
     (let perPage = (if perPage > 100 then 100 else perPage)
      in GetOrganizationTickets_path orgID page perPage)"

definition runGroupList_path :: "int \<Rightarrow> int \<Rightarrow> string" where
  "runGroupList_path page perPage =
     (let perPage = (if perPage > 100 then 100 else perPage) in ListGroups_path page perPage)"

definition runGroupUsers_path :: "int \<Rightarrow> int \<Rightarrow> int \<Rightarrow> string" where
  "runGroupUsers_path groupID page perPage =
     (let perPage = (if perPage > 100 then 100 else perPage)
      in GetGroupUsers_path groupID page perPage)"

definition runGroupMemberships_path :: "int \<Rightarrow> int \<Rightarrow> int \<Rightarrow> string" where
  "runGroupMemberships_path groupID page perPage =
     (let perPage = (if perPage > 100 then 100 else perPage)
      in GetGroupMemberships_path groupID page perPage)"

text \<open>
  The flags of \<open>ticket create\<close> and \<open>ticket update\<close>. A flag of \<open>ticket update\<close> carries
  its value and whether the command line set it (\<open>cmd.Flags().Changed\<close>).
  \<open>promptString\<close> is the interactive prompt: an error or the trimmed input.
\<close>

record TicketCreateFlags =
  fSubject :: string
  fDescription :: string
  fPriority :: string
  fType :: string
  fStatus :: string
  fAssignee :: int
  fGroup :: int
  fTags :: "string list"

definition runTicketCreate_request ::
  "(string \<Rightarrow> string + string) \<Rightarrow> TicketCreateFlags \<Rightarrow> string + CreateTicketRequest" where
  "runTicketCreate_request promptString fl =
     (case (if fSubject fl = [] then promptString ''Subject'' else Inr (fSubject fl)) of
        Inl err \<Rightarrow> Inl err
      | Inr subject \<Rightarrow>
          (case (if fDescription fl = [] then promptString ''Description''
                 else Inr (fDescription fl)) of
             Inl err \<Rightarrow> Inl err
           | Inr description \<Rightarrow>
               Inr \<lparr>ctSubject = subject, ctDescription = description,
                    ctPriority = fPriority fl, ctType = fType fl, ctStatus = fStatus fl,
                    ctAssigneeID = (if fAssignee fl > 0 then Some (fAssignee fl) else None),
                    ctGroupID = (if fGroup fl > 0 then Some (fGroup fl) else None),
                    ctTags = fTags fl\<rparr>))"

definition runTicketCreate ::
  "(string \<Rightarrow> string + string) \<Rightarrow> (bytes \<Rightarrow> 't option) \<Rightarrow> transport \<Rightarrow> Client
     \<Rightarrow> TicketCreateFlags \<Rightarrow> (string + 't) \<times> Request list" where
  "runTicketCreate promptString decode roundTrip zdClient fl =
     (case runTicketCreate_request promptString fl of
        Inl err \<Rightarrow> (Inl err, [])
      | Inr req \<Rightarrow>
          (case CreateTicket decode roundTrip zdClient req of
             (Inl err, sent) \<Rightarrow> (Inl (''failed to create ticket: '' @ err), sent)
           | (Inr ticket, sent) \<Rightarrow> (Inr ticket, sent)))"

record 'a Flag =
  Changed :: bool
  Value :: 'a

record TicketUpdateFlags =
  uSubject :: "string Flag"
  uPriority :: "string Flag"
  uStatus :: "string Flag"
  uAssignee :: "int Flag"
  uGroup :: "int Flag"
  uTags :: "string list Flag"

definition flagValue :: "'a Flag \<Rightarrow> 'a option" where
  "flagValue f = (if Changed f then Some (Value f) else None)"

definition runTicketUpdate_request :: "TicketUpdateFlags \<Rightarrow> string + UpdateTicketRequest" where
  "runTicketUpdate_request fl =
     (let req = \<lparr>utSubject = flagValue (uSubject fl), utPriority = flagValue (uPriority fl),
                 utStatus = flagValue (uStatus fl), utAssigneeID = flagValue (uAssignee fl),
                 utGroupID = flagValue (uGroup fl),
                 utTags = (if Changed (uTags fl) then Value (uTags fl) else []),
                 utComment = None\<rparr>;
          updated = (Changed (uSubject fl) \<or> Changed (uPriority fl) \<or> Changed (uStatus fl)
                     \<or> Changed (uAssignee fl) \<or> Changed (uGroup fl) \<or> Changed (uTags fl))
      in if \<not> updated
         then Inl ''no updates specified. Use flags like --status, --priority, --assignee, etc.''
         else Inr req)"

definition runTicketUpdate ::
  "lib \<Rightarrow> (bytes \<Rightarrow> 't option) \<Rightarrow> transport \<Rightarrow> Client \<Rightarrow> fs \<Rightarrow> int \<Rightarrow> TicketUpdateFlags
     \<Rightarrow> (string + 't) \<times> fs \<times> Request list" where
  "runTicketUpdate L decode roundTrip zdClient files ticketID fl =
     (case runTicketUpdate_request fl of
        Inl err \<Rightarrow> (Inl err, files, [])
      | Inr req \<Rightarrow>
          (case UpdateTicket L decode roundTrip zdClient files ticketID req of
             (Inl err, files1, sent) \<Rightarrow> (Inl (''failed to update ticket: '' @ err), files1, sent)
           | (Inr ticket, files1, sent) \<Rightarrow> (Inr ticket, files1, sent)))"

text \<open>
  \<open>ticket assign\<close> takes the ticket id and the user id as arguments (parsed by
  \<open>strconv.ParseInt\<close>) and sends an update with that assignee alone.
\<close>

definition runTicketAssign_request :: "int \<Rightarrow> UpdateTicketRequest" where
  "runTicketAssign_request assigneeID =
     \<lparr>utSubject = None, utPriority = None, utStatus = None, utAssigneeID = Some assigneeID,
      utGroupID = None, utTags = [], utComment = None\<rparr>"

definition runTicketAssign ::
  "lib \<Rightarrow> (bytes \<Rightarrow> 't option) \<Rightarrow> transport \<Rightarrow> Client \<Rightarrow> fs \<Rightarrow> int \<Rightarrow> int
     \<Rightarrow> (string + 't) \<times> fs \<times> Request list" where
  "runTicketAssign L decode roundTrip zdClient files ticketID assigneeID =
     (case UpdateTicket L decode roundTrip zdClient files ticketID
             (runTicketAssign_request assigneeID) of
        (Inl err, files1, sent) \<Rightarrow> (Inl (''failed to assign ticket: '' @ err), files1, sent)
      | (Inr ticket, files1, sent) \<Rightarrow> (Inr ticket, files1, sent))"

section \<open>Client construction\<close>

text \<open>
  \<open>EncodeToString\<close> is \<open>base64.StdEncoding.EncodeToString\<close>: the standard alphabet of
  RFC 4648 with \<open>=\<close> padding, three bytes to four characters.
\<close>

definition b64_char :: "nat \<Rightarrow> char" where
  "b64_char n = ''ABCDEFGHIJKLMNOPQRSTUVWXYZabcdefghijklmnopqrstuvwxyz0123456789+/'' ! n"

fun b64_encode :: "nat list \<Rightarrow> string" where
  "b64_encode (a # b # c # rest) =
     [b64_char (a div 4), b64_char ((a mod 4) * 16 + b div 16),
      b64_char ((b mod 16) * 4 + c div 64), b64_char (c mod 64)] @ b64_encode rest"
| "b64_encode [a, b] =
     [b64_char (a div 4), b64_char ((a mod 4) * 16 + b div 16), b64_char ((b mod 16) * 4),
      CHR ''='']"
| "b64_encode [a] = [b64_char (a div 4), b64_char ((a mod 4) * 16), CHR ''='', CHR ''='']"
| "b64_encode [] = []"

definition EncodeToString :: "bytes \<Rightarrow> string" where
  "EncodeToString b = b64_encode (map of_char b)"

definition EncodeToken :: "string \<Rightarrow> string \<Rightarrow> string" where
  "EncodeToken email apiToken =
     (let credentials = email @ ''/token:'' @ apiToken in EncodeToString credentials)"

text \<open>The validators return the error, or \<open>None\<close> for \<open>nil\<close>.\<close>

definition ValidateTokenAuth :: "string \<Rightarrow> string \<Rightarrow> string option" where
  "ValidateTokenAuth email apiToken =
     (if email = [] then Some ''email is required for token authentication''
      else if apiToken = [] then Some ''API token is required for token authentication''
      else None)"

definition ValidateOAuthToken :: "string \<Rightarrow> string \<Rightarrow> string \<Rightarrow> string option" where
  "ValidateOAuthToken accessToken refreshToken expiry =
     (if accessToken = [] then Some ''OAuth access token is required''
      else if refreshToken = [] then Some ''OAuth refresh token is required''
      else if expiry = [] then Some ''OAuth token expiry is required''
      else None)"

definition ValidateOAuthConfig :: "string \<Rightarrow> string \<Rightarrow> string option" where
  "ValidateOAuthConfig clientID clientSecret =
     (if clientID = [] then Some ''OAuth client ID is required''
      else if clientSecret = [] then Some ''OAuth client secret is required''
      else None)"

type_synonym AuthType = string

definition AuthTypeToken :: AuthType where
  "AuthTypeToken = ''token''"

definition AuthTypeOAuth :: AuthType where
  "AuthTypeOAuth = ''oauth''"

record Instance =
  Name :: string
  Subdomain :: string
  AuthType :: AuthType
  Email :: string
  APIToken :: string
  OAuthClientID :: string
  OAuthSecret :: string
  OAuthToken :: string
  OAuthRefresh :: string
  OAuthExpiry :: string

text \<open>
  What \<open>cache.New\<close> asks of the operating system: the home directory (\<open>None\<close> when
  \<open>os.UserHomeDir\<close> fails) and whether \<open>os.MkdirAll\<close> of a path succeeds.
  \<open>filepath.Join\<close> is written for a home path without a trailing separator.
\<close>

record os =
  UserHomeDir :: "string option"
  MkdirAll :: "string \<Rightarrow> bool"

definition New :: "os \<Rightarrow> int \<Rightarrow> string + Cache" where
  "New env t =
     (case UserHomeDir env of
        None \<Rightarrow> Inl ''failed to get home directory''
      | Some home \<Rightarrow>
          (let cacheDir = home @ ''/.zd/cache'' in
           if MkdirAll env cacheDir then Inr \<lparr>dir = cacheDir, ttl = t\<rparr>
           else Inl ''failed to create cache directory''))"

definition NewClientWithCache :: "os \<Rightarrow> Instance \<Rightarrow> bool \<Rightarrow> string + Client" where
  "NewClientWithCache env instance useCache0 =
     (let client = \<lparr>subdomain = Subdomain instance, authHeader = [], cache = None,
                    useCache = useCache0\<rparr> in
      case (if AuthType instance = AuthTypeToken then
              (case ValidateTokenAuth (Email instance) (APIToken instance) of
                 Some err \<Rightarrow> Inl err
               | None \<Rightarrow>
                   (let encodedToken = EncodeToken (Email instance) (APIToken instance)
                    in Inr (client\<lparr>authHeader := ''Basic '' @ encodedToken\<rparr>)))
            else if AuthType instance = AuthTypeOAuth then
              (case ValidateOAuthToken (OAuthToken instance) (OAuthRefresh instance)
                      (OAuthExpiry instance) of
                 Some err \<Rightarrow> Inl err
               | None \<Rightarrow>
                   (case ValidateOAuthConfig (OAuthClientID instance) (OAuthSecret instance) of
                      Some err \<Rightarrow> Inl err
                    | None \<Rightarrow> Inr (client\<lparr>authHeader := ''Bearer '' @ OAuthToken instance\<rparr>)))
            else Inl (''unsupported auth type: '' @ AuthType instance)) of
        Inl err \<Rightarrow> Inl err
      | Inr client \<Rightarrow>
          Inr (if useCache0
               then (case New env DefaultTTL of
                       Inl err \<Rightarrow> client\<lparr>useCache := False\<rparr>
                     | Inr c \<Rightarrow> client\<lparr>cache := Some c\<rparr>)
               else client))"

section \<open>Error classification\<close>

text \<open>
  \<open>ZendeskError\<close> is the remote error document, \<open>APIError\<close> the formatted error. A Go
  \<open>error\<close> is an \<open>*APIError\<close> or some other error. \<open>ParseAPIError\<close> takes
  \<open>json.Unmarshal\<close> into a \<open>ZendeskError\<close> as its first argument.
\<close>

record ZendeskError =
  zdError :: string
  zdDescription :: string
  zdDetails :: "json option"

record APIError =
  StatusCode :: int
  Message :: string
  Description :: string
  Details :: "json option"

datatype error = APIErr APIError | OtherErr string

definition getStatusMessage :: "int \<Rightarrow> string" where
  "getStatusMessage statusCode =
     (if statusCode = 400 then ''Bad Request''
      else if statusCode = 401 then ''Authentication Failed''
      else if statusCode = 403 then ''Access Denied''
      else if statusCode = 404 then ''Resource Not Found''
      else if statusCode = 422 then ''Invalid Input''
      else if statusCode = 429 then ''Rate Limit Exceeded''
      else if statusCode = 500 then ''Zendesk Server Error''
      else if statusCode = 503 then ''Zendesk Service Unavailable''
      else ''HTTP '' @ fmt_d statusCode @ '' Error'')"

definition ParseAPIError :: "(bytes \<Rightarrow> ZendeskError option) \<Rightarrow> int \<Rightarrow> bytes \<Rightarrow> error" where
  "ParseAPIError unmarshal statusCode body =
     (let fallback = APIErr \<lparr>StatusCode = statusCode, Message = getStatusMessage statusCode,
                              Description = body, Details = None\<rparr> in
      case unmarshal body of
        Some zdErr \<Rightarrow>
          if zdError zdErr \<noteq> []
          then APIErr \<lparr>StatusCode = statusCode, Message = zdError zdErr,
                       Description = zdDescription zdErr, Details = zdDetails zdErr\<rparr>
          else fallback
      | None \<Rightarrow> fallback)"

fun IsRateLimitError :: "error \<Rightarrow> bool" where
  "IsRateLimitError (APIErr apiErr) = (StatusCode apiErr = 429)"
| "IsRateLimitError (OtherErr e) = False"

fun IsAuthError :: "error \<Rightarrow> bool" where
  "IsAuthError (APIErr apiErr) = (StatusCode apiErr = 401 \<or> StatusCode apiErr = 403)"
| "IsAuthError (OtherErr e) = False"

fun IsNotFoundError :: "error \<Rightarrow> bool" where
  "IsNotFoundError (APIErr apiErr) = (StatusCode apiErr = 404)"
| "IsNotFoundError (OtherErr e) = False"

section \<open>Retry with backoff\<close>

text \<open>
  \<open>Atoi\<close> is \<open>strconv.Atoi\<close> where \<open>int\<close> has 64 bits: an optional sign, then decimal
  digits only, and an error (\<open>None\<close>) for any other text or a value out of range.
\<close>

definition digit_val :: "char \<Rightarrow> nat option" where
  "digit_val c =
     map_of [(CHR ''0'', 0), (CHR ''1'', 1), (CHR ''2'', 2), (CHR ''3'', 3), (CHR ''4'', 4),
             (CHR ''5'', 5), (CHR ''6'', 6), (CHR ''7'', 7), (CHR ''8'', 8), (CHR ''9'', 9)] c"

fun parse_digits :: "string \<Rightarrow> nat \<Rightarrow> nat option" where
  "parse_digits [] acc = Some acc"
| "parse_digits (c # cs) acc =
     (case digit_val c of None \<Rightarrow> None | Some d \<Rightarrow> parse_digits cs (10 * acc + d))"

definition Atoi :: "string \<Rightarrow> int option" where
  "Atoi s =
     (let (neg, ds) = (case s of
                         c # r \<Rightarrow> if c = CHR ''-'' then (True, r)
                                  else if c = CHR ''+'' then (False, r) else (False, s)
                       | [] \<Rightarrow> (False, s)) in
      if ds = [] then None
      else (case parse_digits ds 0 of
              None \<Rightarrow> None
            | Some n \<Rightarrow>
                (let v = (if neg then - int n else int n) in
                 if - (2 ^ 63) \<le> v \<and> v < 2 ^ 63 then Some v else None)))"

record RetryConfig =
  MaxRetries :: nat
  InitialBackoff :: int
  MaxBackoff :: int

definition DefaultRetryConfig :: RetryConfig where
  "DefaultRetryConfig = \<lparr>MaxRetries = 3, InitialBackoff = 1 * Second, MaxBackoff = 30 * Second\<rparr>"

text \<open>
  The outcome of \<open>RetryWithBackoff\<close>: the response, \<open>ctx.Err()\<close>, or the error
  \<open>request failed after n retries\<close> wrapping the last error.
\<close>

datatype retryResult = Returned Response | CtxErr | GaveUp string

text \<open>
  A wait is a \<open>select\<close> between \<open>time.After(d)\<close> and \<open>ctx.Done()\<close>: the log keeps the
  duration \<open>d\<close> in nanoseconds and whether the timer won. A duration that is not
  positive fires at once. \<open>fn\<close> is indexed by the attempt, and \<open>ctxDone n\<close> tells whether
  the context is cancelled during the wait of attempt \<open>n\<close>.

  The backoff \<open>float64(InitialBackoff) * math.Pow(2, float64(attempt))\<close> is exact in
  \<open>float64\<close> for the attempts the loop reaches, so it is written on integers.
\<close>

definition retryAfterWait :: "RetryConfig \<Rightarrow> int \<Rightarrow> int" where
  "retryAfterWait config seconds =
     (let waitDuration = wrap64 (seconds * Second) in
      if waitDuration > MaxBackoff config then MaxBackoff config else waitDuration)"

definition backoffWait :: "RetryConfig \<Rightarrow> nat \<Rightarrow> int" where
  "backoffWait config attempt =
     (let backoff = InitialBackoff config * 2 ^ attempt in
      if backoff > MaxBackoff config then MaxBackoff config else backoff)"

text \<open>The parsed \<open>Retry-After\<close> of a 429 response, when the inner branch is taken.\<close>

definition retryAfterSeconds :: "Response \<Rightarrow> int option" where
  "retryAfterSeconds resp =
     (if respStatusCode resp = 429 \<and> respRetryAfter resp \<noteq> [] then Atoi (respRetryAfter resp)
      else None)"

function retryLoop ::
  "RetryConfig \<Rightarrow> (nat \<Rightarrow> string + Response) \<Rightarrow> (nat \<Rightarrow> bool) \<Rightarrow> nat \<Rightarrow> string
     \<Rightarrow> (int \<times> bool) list \<Rightarrow> retryResult \<times> (int \<times> bool) list" where
  "retryLoop config fn ctxDone attempt lastErr waits =
     (if \<not> attempt \<le> MaxRetries config
      then (GaveUp (''request failed after '' @ fmt_d (int (MaxRetries config)) @ '' retries: ''
                     @ lastErr), waits)
      else
        (case fn attempt of
           Inr resp \<Rightarrow>
             if respStatusCode resp < 500 \<and> respStatusCode resp \<noteq> 429
             then (Returned resp, waits)
             else
               (let lastErr = ''HTTP '' @ fmt_d (respStatusCode resp) in
                case retryAfterSeconds resp of
                  Some seconds \<Rightarrow>
                    (let waitDuration = retryAfterWait config seconds in
                     if ctxDone attempt then (CtxErr, waits @ [(waitDuration, False)])
                     else retryLoop config fn ctxDone (Suc attempt) lastErr
                            (waits @ [(waitDuration, True)]))
                | None \<Rightarrow>
                    if attempt = MaxRetries config
                    then (GaveUp (''request failed after '' @ fmt_d (int (MaxRetries config))
                                   @ '' retries: '' @ lastErr), waits)
                    else
                      (let backoff = backoffWait config attempt in
                       if ctxDone attempt then (CtxErr, waits @ [(backoff, False)])
                       else retryLoop config fn ctxDone (Suc attempt) lastErr
                              (waits @ [(backoff, True)])))
         | Inl err \<Rightarrow>
             (let lastErr = err in
              if attempt = MaxRetries config
              then (GaveUp (''request failed after '' @ fmt_d (int (MaxRetries config))
                             @ '' retries: '' @ lastErr), waits)
              else
                (let backoff = backoffWait config attempt in
                 if ctxDone attempt then (CtxErr, waits @ [(backoff, False)])
                 else retryLoop config fn ctxDone (Suc attempt) lastErr
                        (waits @ [(backoff, True)])))))"
  by pat_completeness auto
termination
  by (relation "measure (\<lambda>(config, fn, ctxDone, attempt, lastErr, waits).
                           Suc (MaxRetries config) - attempt)") auto

declare retryLoop.simps [simp del]

text \<open>
  How the loop reads the outcome of one attempt: it returns on a response below 500
  other than 429, and otherwise saves the transport error or \<open>HTTP\<close> and the status.
\<close>

fun attemptFailed :: "string + Response \<Rightarrow> bool" where
  "attemptFailed (Inl err) = True"
| "attemptFailed (Inr resp) = (\<not> (respStatusCode resp < 500 \<and> respStatusCode resp \<noteq> 429))"

fun attemptError :: "string + Response \<Rightarrow> string" where
  "attemptError (Inl err) = err"
| "attemptError (Inr resp) = ''HTTP '' @ fmt_d (respStatusCode resp)"

definition RetryWithBackoff ::
  "(nat \<Rightarrow> string + Response) \<Rightarrow> (nat \<Rightarrow> bool) \<Rightarrow> retryResult \<times> (int \<times> bool) list" where
  "RetryWithBackoff fn ctxDone = retryLoop DefaultRetryConfig fn ctxDone 0 [] []"

section \<open>OAuth authorization flow\<close>

text \<open>
  A callback request is its query parameters (\<open>Query().Get\<close> gives the empty string for
  an absent one). \<open>codeChan\<close> and \<open>errChan\<close> are channels with a buffer of one. A
  handler that sends while the buffer is full blocks: its value is kept in
  \<open>codeBlocked\<close> or \<open>errBlocked\<close>, in the order of arrival, and the handler has not
  returned.
\<close>

record Callback =
  cbState :: string
  cbError :: string
  cbErrorDescription :: string
  cbCode :: string

record Chans =
  codeChan :: "string list"
  errChan :: "string list"
  codeBlocked :: "string list"
  errBlocked :: "string list"

definition sendErr :: "Chans \<Rightarrow> string \<Rightarrow> Chans" where
  "sendErr ch v =
     (if length (errChan ch) < 1 then ch\<lparr>errChan := errChan ch @ [v]\<rparr>
      else ch\<lparr>errBlocked := errBlocked ch @ [v]\<rparr>)"

definition sendCode :: "Chans \<Rightarrow> string \<Rightarrow> Chans" where
  "sendCode ch v =
     (if length (codeChan ch) < 1 then ch\<lparr>codeChan := codeChan ch @ [v]\<rparr>
      else ch\<lparr>codeBlocked := codeBlocked ch @ [v]\<rparr>)"

definition callbackHandler :: "string \<Rightarrow> Chans \<Rightarrow> Callback \<Rightarrow> Chans" where
  "callbackHandler state ch r =
     (if cbState r \<noteq> state
      then sendErr ch ''state mismatch - possible CSRF attack''
      else if cbError r \<noteq> []
      then sendErr ch (''authorization failed: '' @ cbError r @ '' - '' @ cbErrorDescription r)
      else if cbCode r = []
      then sendErr ch ''no authorization code received''
      else sendCode ch (cbCode r))"

text \<open>
  The \<open>select\<close> of the flow resolves on one of its four cases; \<open>PerformOAuthFlow\<close> takes
  the case that fires and is \<open>NotReady\<close> when that case cannot fire. \<open>listenErr\<close> is the
  error of \<open>ListenAndServe\<close>, if the listener could not start (then no callback is
  served); \<open>callbacks\<close> are the requests served before the \<open>select\<close> resolves;
  \<open>ctxErr\<close> is \<open>ctx.Err()\<close> once the context is done, \<open>None\<close> while it is not.
  \<open>oauthCfg.Exchange\<close> is the first argument.

  The flow receives once. On the three failure branches it then calls
  \<open>server.Shutdown(context.Background())\<close>, which waits without bound for every handler
  to return: the receive from \<open>errChan\<close> lets the first blocked sender on it finish, and
  if any handler is still blocked after that the flow never returns. On the success
  branch the shutdown has a timeout of five seconds, after which the flow goes on.
  The outcome comes with the calls made.
\<close>

datatype selectCase = FromCodeChan | FromErrChan | FromCtxDone | FromTimeAfter

datatype effect = Shutdown | ShutdownWithTimeout | Exchange string

datatype 'tok flowOutcome =
    NotReady
  | NeverReturns "effect list"
  | Returns "string + 'tok" "effect list"


definition flowChans :: "string \<Rightarrow> string option \<Rightarrow> Callback list \<Rightarrow> Chans" where
  "flowChans state listenErr callbacks =
     (case listenErr of
        Some e \<Rightarrow> \<lparr>codeChan = [], errChan = [''failed to start callback server: '' @ e],
                   codeBlocked = [], errBlocked = []\<rparr>
      | None \<Rightarrow> foldl (callbackHandler state)
                 \<lparr>codeChan = [], errChan = [], codeBlocked = [], errBlocked = []\<rparr> callbacks)"

definition shutdownBackground :: "string list \<Rightarrow> string + 'tok \<Rightarrow> 'tok flowOutcome" where
  "shutdownBackground blocked res =
     (if blocked = [] then Returns res [Shutdown] else NeverReturns [Shutdown])"

definition PerformOAuthFlow ::
  "(string \<Rightarrow> string + 'tok) \<Rightarrow> int \<Rightarrow> string option \<Rightarrow> Callback list \<Rightarrow> string option
     \<Rightarrow> selectCase \<Rightarrow> 'tok flowOutcome" where
  "PerformOAuthFlow exchange now listenErr callbacks ctxErr chosen =
     (let state = PerformOAuthFlow_state now;
          ch = flowChans state listenErr callbacks in
      case chosen of
        FromCodeChan \<Rightarrow>
          (case codeChan ch of
             [] \<Rightarrow> NotReady
           | code # rest \<Rightarrow>
               Returns (case exchange code of
                          Inl err \<Rightarrow>
                            Inl (''failed to exchange authorization code for token: '' @ err)
                        | Inr token \<Rightarrow> Inr token)
                       [ShutdownWithTimeout, Exchange code])
      | FromErrChan \<Rightarrow>
          (case errChan ch of
             [] \<Rightarrow> NotReady
           | err # rest \<Rightarrow> shutdownBackground (drop 1 (errBlocked ch) @ codeBlocked ch) (Inl err))
      | FromCtxDone \<Rightarrow>
          (case ctxErr of
             None \<Rightarrow> NotReady
           | Some err \<Rightarrow> shutdownBackground (errBlocked ch @ codeBlocked ch) (Inl err))
      | FromTimeAfter \<Rightarrow>
          shutdownBackground (errBlocked ch @ codeBlocked ch)
            (Inl ''authorization timeout - no response received within 5 minutes''))"

section \<open>Sample inputs\<close>

text \<open>
  Concrete inputs on which the theorems below are run: a cache directory with one entry
  for ticket 500 that expires at instant 100, a client of the instance \<open>acme\<close>, a
  remote side that answers every request alike, and the instances of the two auth modes.
\<close>

definition sampleEntry :: Entry where
  "sampleEntry = \<lparr>Data = ''payload'', ExpiresAt = 100, CreatedAt = 0\<rparr>"

text \<open>
  A digest of fixed length for the samples: the key cut or padded to 64 characters.
\<close>

definition sampleDigest :: "string \<Rightarrow> string" where
  "sampleDigest key = take 64 (key @ ''0000000000000000000000000000000000000000000000000000000000000000'')"

definition sampleLib :: lib where
  "sampleLib = \<lparr>Sum256Hex = sampleDigest,
                UnmarshalEntry = map_of [(''entry-bytes'', sampleEntry)],
                MarshalEntry = (\<lambda>e. Some ''entry-bytes'')\<rparr>"

definition sampleCache :: Cache where
  "sampleCache = \<lparr>dir = ''/home/u/.zd/cache'', ttl = DefaultTTL\<rparr>"

definition sampleClient :: Client where
  "sampleClient = \<lparr>subdomain = ''acme'', authHeader = ''Bearer t0'', cache = Some sampleCache,
                   useCache = True\<rparr>"

definition samplePath :: string where
  "samplePath =
     ''/home/u/.zd/cache/acme:tickets:500000000000000000000000000000000000000000000000000.json''"

definition sampleListPath :: string where
  "sampleListPath =
     ''/home/u/.zd/cache/acme:tickets:list:1:100:open000000000000000000000000000000000000.json''"

definition sampleFiles :: fs where
  "sampleFiles = [samplePath \<mapsto> File ''entry-bytes'', sampleListPath \<mapsto> File ''entry-bytes'']"

definition corruptFiles :: fs where
  "corruptFiles = [samplePath \<mapsto> File ''not json'']"

definition noFiles :: fs where
  "noFiles = Map.empty"

definition sampleDecode :: "bytes \<Rightarrow> string option" where
  "sampleDecode b = Some b"

definition okTransport :: transport where
  "okTransport req = Inr \<lparr>respStatusCode = 200, respBody = ''ticket-json'', respRetryAfter = []\<rparr>"

definition sampleOs :: os where
  "sampleOs = \<lparr>UserHomeDir = Some ''/home/u'', MkdirAll = (\<lambda>p. True)\<rparr>"

definition readOnlyOs :: os where
  "readOnlyOs = \<lparr>UserHomeDir = Some ''/home/u'', MkdirAll = (\<lambda>p. False)\<rparr>"

definition tokenInstance :: Instance where
  "tokenInstance = \<lparr>Name = ''main'', Subdomain = ''acme'', AuthType = ''token'',
                    Email = ''a@b.com'', APIToken = ''tok123'', OAuthClientID = [],
                    OAuthSecret = [], OAuthToken = [], OAuthRefresh = [], OAuthExpiry = []\<rparr>"

definition oauthInstance :: Instance where
  "oauthInstance = \<lparr>Name = ''main'', Subdomain = ''acme'', AuthType = ''oauth'',
                    Email = [], APIToken = [], OAuthClientID = ''cid'', OAuthSecret = ''sec'',
                    OAuthToken = ''acc'', OAuthRefresh = ''ref'',
                    OAuthExpiry = ''2030-01-01T00:00:00Z''\<rparr>"

definition closeRequest :: UpdateTicketRequest where
  "closeRequest = \<lparr>utSubject = None, utPriority = None, utStatus = Some ''closed'',
                   utAssigneeID = None, utGroupID = None, utTags = [], utComment = None\<rparr>"

definition noFlag :: "'a \<Rightarrow> 'a Flag" where
  "noFlag d = \<lparr>Changed = False, Value = d\<rparr>"

definition setFlag :: "'a \<Rightarrow> 'a Flag" where
  "setFlag v = \<lparr>Changed = True, Value = v\<rparr>"

text \<open>\<open>zd ticket update 500 --assignee 0\<close> and \<open>zd ticket create\<close> with its defaults.\<close>

definition assigneeZeroFlags :: TicketUpdateFlags where
  "assigneeZeroFlags = \<lparr>uSubject = noFlag [], uPriority = noFlag [], uStatus = noFlag [],
                        uAssignee = setFlag 0, uGroup = noFlag 0, uTags = noFlag []\<rparr>"

definition createFlags :: TicketCreateFlags where
  "createFlags = \<lparr>fSubject = ''Printer'', fDescription = ''It is on fire'', fPriority = [],
                  fType = ''incident'', fStatus = ''new'', fAssignee = 0, fGroup = 7,
                  fTags = []\<rparr>"

text \<open>Remote sides for the retry helper, and callbacks for the OAuth flow.\<close>

definition always429 :: "string \<Rightarrow> nat \<Rightarrow> string + Response" where
  "always429 retryAfter n =
     Inr \<lparr>respStatusCode = 429, respBody = [], respRetryAfter = retryAfter\<rparr>"

definition alwaysStatus :: "int \<Rightarrow> nat \<Rightarrow> string + Response" where
  "alwaysStatus code n = Inr \<lparr>respStatusCode = code, respBody = [], respRetryAfter = []\<rparr>"

definition rateLimitedOnce :: "nat \<Rightarrow> string + Response" where
  "rateLimitedOnce n =
     (if n = 0 then Inr \<lparr>respStatusCode = 429, respBody = [], respRetryAfter = ''2''\<rparr>
      else Inr \<lparr>respStatusCode = 200, respBody = ''ok'', respRetryAfter = []\<rparr>)"

definition neverDone :: "nat \<Rightarrow> bool" where
  "neverDone n = False"

definition doneAt :: "nat \<Rightarrow> nat \<Rightarrow> bool" where
  "doneAt k n = (n = k)"

definition forgedCallback :: Callback where
  "forgedCallback = \<lparr>cbState = ''state-0'', cbError = [], cbErrorDescription = [],
                     cbCode = ''stolen''\<rparr>"

definition genuineCallback :: Callback where
  "genuineCallback = \<lparr>cbState = ''state-1700000000'', cbError = [], cbErrorDescription = [],
                      cbCode = ''granted''\<rparr>"

definition sampleExchange :: "string \<Rightarrow> string + string" where
  "sampleExchange code = Inr (''token-for-'' @ code)"

definition sampleZendeskError :: ZendeskError where
  "sampleZendeskError =
     \<lparr>zdError = ''RecordNotFound'', zdDescription = ''Not found'', zdDetails = None\<rparr>"

definition emptyZendeskError :: ZendeskError where
  "emptyZendeskError = \<lparr>zdError = [], zdDescription = [], zdDetails = None\<rparr>"

definition sampleUnmarshal :: "bytes \<Rightarrow> ZendeskError option" where
  "sampleUnmarshal =
     map_of [(''remote-error-json'', sampleZendeskError), (''{}'', emptyZendeskError)]"

section \<open>Facts about formatting\<close>

lemma fmt_d_100: "fmt_d 100 = ''100''"
  by (simp add: fmt_d_def digits_nat.simps digit_char_def)

lemma digit_char_in: "k < 10 \<Longrightarrow> digit_char k \<in> set ''0123456789''"
proof -
  assume "k < 10"
  then have "k \<in> {0, 1, 2, 3, 4, 5, 6, 7, 8, 9}" by auto
  then show ?thesis by (auto simp: digit_char_def)
qed

lemma digits_nat_chars: "set (digits_nat n) \<subseteq> set ''0123456789''"
proof (induction n rule: digits_nat.induct)
  case (1 n)
  show ?case
  proof (cases "n < 10")
    case True
    have "digits_nat n = [digit_char n]"
      using True by (subst digits_nat.simps) simp
    then show ?thesis using digit_char_in [OF True] by simp
  next
    case False
    have eq: "digits_nat n = digits_nat (n div 10) @ [digit_char (n mod 10)]"
      using False by (subst digits_nat.simps) simp
    have "n mod 10 < 10" by simp
    then have last: "digit_char (n mod 10) \<in> set ''0123456789''"
      by (rule digit_char_in)
    have init: "set (digits_nat (n div 10)) \<subseteq> set ''0123456789''"
      using 1 False by blast
    show ?thesis unfolding eq using last init by simp
  qed
qed

lemma fmt_d_set: "set (fmt_d i) \<subseteq> insert CHR ''-'' (set ''0123456789'')"
proof (cases "i < 0")
  case True
  then have "fmt_d i = CHR ''-'' # digits_nat (nat (- i))"
    by (simp add: fmt_d_def)
  then have "set (fmt_d i) = insert CHR ''-'' (set (digits_nat (nat (- i))))"
    by (simp only: list.set)
  with digits_nat_chars [of "nat (- i)"] show ?thesis by blast
next
  case False
  then have "set (fmt_d i) = set (digits_nat (nat i))"
    by (simp add: fmt_d_def)
  with digits_nat_chars [of "nat i"] show ?thesis by blast
qed

lemma fmt_d_no_l: "CHR ''l'' \<notin> set (fmt_d i)"
proof -
  have "CHR ''l'' \<notin> insert CHR ''-'' (set ''0123456789'')" by simp
  then show ?thesis using fmt_d_set [of i] by blast
qed

lemma fmt_d_no_s: "CHR ''s'' \<notin> set (fmt_d i)"
proof -
  have "CHR ''s'' \<notin> insert CHR ''-'' (set ''0123456789'')" by simp
  then show ?thesis using fmt_d_set [of i] by blast
qed

section \<open>The cache read\<close>

text \<open>
  Claim C1, as the code has it. \<open>Cache.Get\<close> finds an entry exactly when its file can
  be read, parses as an entry, and the current time is not after the expiration
  timestamp: an entry read at the very instant of its expiration is still returned.
  A found entry is returned with its data and the directory is left alone. When the
  file can be read but its content is malformed or expired, the file is removed. When
  the file is absent or cannot be read, nothing is found and nothing is removed.
\<close>

theorem Get_found_iff_not_expired:
  assumes "Get L now c files key = (data, found, files')"
  shows "(found \<longleftrightarrow> (\<exists>raw entry. ReadFile files (keyToPath L c key) = Some raw
                         \<and> UnmarshalEntry L raw = Some entry \<and> \<not> now > ExpiresAt entry))
         \<and> (found \<longrightarrow> files' = files
               \<and> (\<exists>raw entry. ReadFile files (keyToPath L c key) = Some raw
                     \<and> UnmarshalEntry L raw = Some entry \<and> data = Data entry))
         \<and> (\<not> found \<and> ReadFile files (keyToPath L c key) \<noteq> None \<longrightarrow>
               files' = Remove files (keyToPath L c key) \<and> files' (keyToPath L c key) = None)
         \<and> (ReadFile files (keyToPath L c key) = None \<longrightarrow> \<not> found \<and> files' = files)"
  using assms
  by (auto simp: Get_def Let_def Remove_def split: option.splits if_splits)

lemmas sample_cache_defs =
  Get_def keyToPath_def ReadFile_def Remove_def sampleLib_def sampleDigest_def sampleCache_def
  sampleFiles_def corruptFiles_def sampleEntry_def samplePath_def sampleListPath_def

text \<open>
  The sample directory read before, and after, the expiration at instant 100, and a
  corrupt entry file: found with its payload; not found and removed; not found and
  removed.
\<close>

theorem Get_found_iff_not_expired_witness:
  "Get sampleLib 50 sampleCache sampleFiles ''acme:tickets:500'' = (''payload'', True, sampleFiles)
   \<and> fst (snd (Get sampleLib 200 sampleCache sampleFiles ''acme:tickets:500'')) = False
   \<and> snd (snd (Get sampleLib 200 sampleCache sampleFiles ''acme:tickets:500'')) samplePath = None
   \<and> fst (snd (Get sampleLib 50 sampleCache corruptFiles ''acme:tickets:500'')) = False
   \<and> snd (snd (Get sampleLib 50 sampleCache corruptFiles ''acme:tickets:500'')) samplePath = None"
  using Get_found_iff_not_expired [of sampleLib 50 sampleCache sampleFiles "''acme:tickets:500''"
      "''payload''" True sampleFiles]
    Get_found_iff_not_expired [of sampleLib 200 sampleCache sampleFiles "''acme:tickets:500''"
      "[]" False "Remove sampleFiles samplePath"]
    Get_found_iff_not_expired [of sampleLib 50 sampleCache corruptFiles "''acme:tickets:500''"
      "[]" False "Remove corruptFiles samplePath"]
  by (simp add: sample_cache_defs)

text \<open>
  At the instant of expiration itself the current time is not strictly before the
  expiration timestamp, and the entry is found all the same.
\<close>

theorem Get_at_expiration_counterexample:
  "Get sampleLib 100 sampleCache sampleFiles ''acme:tickets:500'' = (''payload'', True, sampleFiles)
   \<and> \<not> (100 < ExpiresAt sampleEntry)"
  by (simp add: sample_cache_defs)

section \<open>Page size\<close>

lemma cachedRead_sent:
  "cachedRead L decode what roundTrip now c files cacheKey path = (res, files', sent) \<Longrightarrow>
     sent = [] \<or> sent = [newRequest c ''GET'' path None]"
  by (auto simp: cachedRead_def Let_def split: prod.splits option.splits sum.splits if_splits)

lemma cachedRead_miss:
  "cacheLookup L now c files cacheKey = (cached, False, files1) \<Longrightarrow>
     snd (snd (cachedRead L decode what roundTrip now c files cacheKey path))
       = [newRequest c ''GET'' path None]"
  by (auto simp: cachedRead_def Let_def split: prod.splits option.splits sum.splits if_splits)

text \<open>
  Claim C8. For a \<open>per-page\<close> value above 100, every request that \<open>ticket list\<close> sends
  asks for \<open>per_page=100\<close>, and so does the request path of each other list command
  (users, organizations, an organization's users and tickets, groups, a group's users
  and memberships).
\<close>

theorem per_page_capped_at_100:
  assumes "perPage > 100"
  shows "(\<forall>req \<in> set (snd (snd (runTicketList L QueryEscape decode roundTrip now c files
                                    page perPage status))).
            reqURL req = GetBaseURL c @ ''/tickets.json?page='' @ fmt_d page @ ''&per_page=100''
                           @ (if status \<noteq> [] then ''&status='' @ QueryEscape status else []))
         \<and> runUserList_path page perPage = ''/users.json?page='' @ fmt_d page @ ''&per_page=100''
         \<and> runOrgList_path page perPage
             = ''/organizations.json?page='' @ fmt_d page @ ''&per_page=100''
         \<and> runOrgUsers_path ident page perPage
             = ''/organizations/'' @ fmt_d ident @ ''/users.json?page='' @ fmt_d page
                 @ ''&per_page=100''
         \<and> runOrgTickets_path ident page perPage
             = ''/organizations/'' @ fmt_d ident @ ''/tickets.json?page='' @ fmt_d page
                 @ ''&per_page=100''
         \<and> runGroupList_path page perPage = ''/groups.json?page='' @ fmt_d page @ ''&per_page=100''
         \<and> runGroupUsers_path ident page perPage
             = ''/groups/'' @ fmt_d ident @ ''/users.json?page='' @ fmt_d page @ ''&per_page=100''
         \<and> runGroupMemberships_path ident page perPage
             = ''/groups/'' @ fmt_d ident @ ''/memberships.json?page='' @ fmt_d page
                 @ ''&per_page=100''"
proof -
  obtain res files' sent where r:
    "ListTickets L QueryEscape decode roundTrip now c files page 100 status = (res, files', sent)"
    by (cases "ListTickets L QueryEscape decode roundTrip now c files page 100 status") auto
  then have "sent = []
      \<or> sent = [newRequest c ''GET'' (ListTickets_path QueryEscape page 100 status) None]"
    unfolding ListTickets_def by (rule cachedRead_sent)
  moreover have "snd (snd (runTicketList L QueryEscape decode roundTrip now c files
                             page perPage status)) = sent"
    using assms r by (simp add: runTicketList_def split: sum.splits)
  ultimately have tickets:
    "\<forall>req \<in> set (snd (snd (runTicketList L QueryEscape decode roundTrip now c files
                               page perPage status))).
       reqURL req = GetBaseURL c @ ''/tickets.json?page='' @ fmt_d page @ ''&per_page=100''
                      @ (if status \<noteq> [] then ''&status='' @ QueryEscape status else [])"
    by (auto simp: newRequest_def ListTickets_path_def fmt_d_100)
  show ?thesis
    using assms tickets
    by (simp add: runUserList_path_def runOrgList_path_def runOrgUsers_path_def
        runOrgTickets_path_def runGroupList_path_def runGroupUsers_path_def
        runGroupMemberships_path_def ListUsers_path_def ListOrganizations_path_def
        GetOrganizationUsers_path_def GetOrganizationTickets_path_def ListGroups_path_def
        GetGroupUsers_path_def GetGroupMemberships_path_def fmt_d_100)
qed

text \<open>A \<open>per-page\<close> of 500 against an empty cache: one request, for 100 per page.\<close>

theorem per_page_capped_at_100_witness:
  "(500 :: int) > 100
   \<and> map reqURL (snd (snd (runTicketList sampleLib id sampleDecode okTransport 0 sampleClient
                              noFiles 1 500 ''open'')))
       = [''https://acme.zendesk.com/api/v2/tickets.json?page=1&per_page=100&status=open'']
   \<and> runUserList_path 1 500 = ''/users.json?page=1&per_page=100''"
proof -
  have miss: "cacheLookup sampleLib 0 sampleClient noFiles
                (ListTickets_key sampleClient 1 100 ''open'') = ([], False, noFiles)"
    by (simp add: cacheLookup_def sampleClient_def Get_def ReadFile_def noFiles_def Let_def)
  have "snd (snd (ListTickets sampleLib id sampleDecode okTransport 0 sampleClient noFiles
                    1 100 ''open''))
          = [newRequest sampleClient ''GET'' (ListTickets_path id 1 100 ''open'') None]"
    unfolding ListTickets_def using miss by (rule cachedRead_miss)
  then have sent: "snd (snd (runTicketList sampleLib id sampleDecode okTransport 0 sampleClient
                               noFiles 1 500 ''open''))
          = [newRequest sampleClient ''GET'' (ListTickets_path id 1 100 ''open'') None]"
    by (auto simp: runTicketList_def split: prod.splits sum.splits)
  have one: "fmt_d 1 = ''1''"
    by (simp add: fmt_d_def digits_nat.simps digit_char_def)
  have base: "GetBaseURL sampleClient = ''https://acme.zendesk.com/api/v2''"
    by (simp add: GetBaseURL_def sampleClient_def)
  show ?thesis
    using per_page_capped_at_100 [of 500 sampleLib id sampleDecode okTransport 0 sampleClient
        noFiles 1 "''open''" 0]
    by (simp add: sent one base)
qed

section \<open>The state token of the OAuth flow\<close>

text \<open>
  Claim C10. The state token is the text \<open>state-\<close> followed by the Unix second at which
  the flow starts and nothing else: two flows that start within the same second issue
  the same token and treat every callback alike.
\<close>

theorem oauth_state_deterministic:
  "PerformOAuthFlow_state now = ''state-'' @ fmt_d (Unix now)
   \<and> (Unix now1 = Unix now2 \<longrightarrow>
        PerformOAuthFlow_state now1 = PerformOAuthFlow_state now2
        \<and> PerformOAuthFlow exchange now1 listenErr callbacks ctxErr chosen
            = PerformOAuthFlow exchange now2 listenErr callbacks ctxErr chosen)"
  by (simp add: PerformOAuthFlow_state_def PerformOAuthFlow_def)

theorem oauth_state_deterministic_witness:
  "Unix 1700000000000000001 = Unix 1700000000999999999
   \<and> PerformOAuthFlow_state 1700000000000000001 = ''state-1700000000''
   \<and> PerformOAuthFlow_state 1700000000999999999 = ''state-1700000000''"
  using oauth_state_deterministic [of 1700000000000000001 1700000000000000001
      1700000000999999999 sampleExchange None "[]" None FromTimeAfter]
  by (simp add: PerformOAuthFlow_state_def Unix_def Second_def fmt_d_def digits_nat.simps
      digit_char_def)

section \<open>Validation and the authorization header\<close>

lemmas construct_defs =
  NewClientWithCache_def ValidateTokenAuth_def ValidateOAuthToken_def ValidateOAuthConfig_def
  AuthTypeToken_def AuthTypeOAuth_def

text \<open>
  Claim C4. With Token auth an empty email, then an empty API token, and with OAuth an
  empty access token, refresh token, expiry, client id, then client secret, makes the
  construction fail with the error that names the first such field. When every
  required field of the declared mode is present the construction succeeds; if the
  cache cannot be initialised the client has caching switched off and no cache.
\<close>

theorem construction_validates_required_fields:
  "(AuthType i = AuthTypeToken \<longrightarrow>
      (Email i = [] \<longrightarrow>
         NewClientWithCache env i u = Inl ''email is required for token authentication'')
      \<and> (Email i \<noteq> [] \<and> APIToken i = [] \<longrightarrow>
         NewClientWithCache env i u = Inl ''API token is required for token authentication''))
   \<and> (AuthType i = AuthTypeOAuth \<longrightarrow>
      (OAuthToken i = [] \<longrightarrow>
         NewClientWithCache env i u = Inl ''OAuth access token is required'')
      \<and> (OAuthToken i \<noteq> [] \<and> OAuthRefresh i = [] \<longrightarrow>
         NewClientWithCache env i u = Inl ''OAuth refresh token is required'')
      \<and> (OAuthToken i \<noteq> [] \<and> OAuthRefresh i \<noteq> [] \<and> OAuthExpiry i = [] \<longrightarrow>
         NewClientWithCache env i u = Inl ''OAuth token expiry is required'')
      \<and> (OAuthToken i \<noteq> [] \<and> OAuthRefresh i \<noteq> [] \<and> OAuthExpiry i \<noteq> []
          \<and> OAuthClientID i = [] \<longrightarrow>
         NewClientWithCache env i u = Inl ''OAuth client ID is required'')
      \<and> (OAuthToken i \<noteq> [] \<and> OAuthRefresh i \<noteq> [] \<and> OAuthExpiry i \<noteq> []
          \<and> OAuthClientID i \<noteq> [] \<and> OAuthSecret i = [] \<longrightarrow>
         NewClientWithCache env i u = Inl ''OAuth client secret is required''))
   \<and> ((AuthType i = AuthTypeToken \<and> Email i \<noteq> [] \<and> APIToken i \<noteq> [])
       \<or> (AuthType i = AuthTypeOAuth \<and> OAuthToken i \<noteq> [] \<and> OAuthRefresh i \<noteq> []
           \<and> OAuthExpiry i \<noteq> [] \<and> OAuthClientID i \<noteq> [] \<and> OAuthSecret i \<noteq> []) \<longrightarrow>
       (\<exists>c. NewClientWithCache env i u = Inr c \<and> subdomain c = Subdomain i
          \<and> (case New env DefaultTTL of
                Inl err \<Rightarrow> useCache c = False \<and> cache c = None
              | Inr ch \<Rightarrow> useCache c = u \<and> cache c = (if u then Some ch else None))))"
  by (auto simp: construct_defs Let_def split: sum.splits option.splits if_splits)

text \<open>
  A missing API token, a missing client secret, a home directory in which the cache
  directory cannot be created, and the same instance where it can.
\<close>

theorem construction_validates_required_fields_witness:
  "NewClientWithCache sampleOs (tokenInstance\<lparr>APIToken := []\<rparr>) True
     = Inl ''API token is required for token authentication''
   \<and> NewClientWithCache sampleOs (oauthInstance\<lparr>OAuthSecret := []\<rparr>) True
     = Inl ''OAuth client secret is required''
   \<and> (\<exists>c. NewClientWithCache readOnlyOs tokenInstance True = Inr c
          \<and> useCache c = False \<and> cache c = None)
   \<and> (\<exists>c. NewClientWithCache sampleOs tokenInstance True = Inr c
          \<and> useCache c = True \<and> cache c = Some sampleCache)"
  using construction_validates_required_fields [of "tokenInstance\<lparr>APIToken := []\<rparr>" sampleOs True]
    construction_validates_required_fields [of "oauthInstance\<lparr>OAuthSecret := []\<rparr>" sampleOs True]
    construction_validates_required_fields [of tokenInstance readOnlyOs True]
    construction_validates_required_fields [of tokenInstance sampleOs True]
  by (auto simp: tokenInstance_def oauthInstance_def AuthTypeToken_def AuthTypeOAuth_def
      New_def sampleOs_def readOnlyOs_def sampleCache_def DefaultTTL_def)

text \<open>
  Claim C5. The client of a Token-mode instance carries the header \<open>Basic\<close> followed by
  the base64 encoding of email, \<open>/token:\<close> and API token; the client of an OAuth-mode
  instance carries \<open>Bearer\<close> followed by the access token as it is. Such a client
  exists whenever the required fields are present.
\<close>

theorem authorization_header:
  "(AuthType instance = AuthTypeToken \<and> Email instance \<noteq> [] \<and> APIToken instance \<noteq> [] \<longrightarrow>
      (\<exists>c. NewClientWithCache env instance useCache0 = Inr c
           \<and> authHeader c
               = ''Basic '' @ EncodeToString (Email instance @ ''/token:'' @ APIToken instance)))
   \<and> (AuthType instance = AuthTypeOAuth \<and> OAuthToken instance \<noteq> []
        \<and> OAuthRefresh instance \<noteq> [] \<and> OAuthExpiry instance \<noteq> []
        \<and> OAuthClientID instance \<noteq> [] \<and> OAuthSecret instance \<noteq> [] \<longrightarrow>
      (\<exists>c. NewClientWithCache env instance useCache0 = Inr c
           \<and> authHeader c = ''Bearer '' @ OAuthToken instance))
   \<and> (\<forall>c. NewClientWithCache env instance useCache0 = Inr c \<longrightarrow>
         (AuthType instance = AuthTypeToken \<longrightarrow>
            authHeader c
              = ''Basic '' @ EncodeToString (Email instance @ ''/token:'' @ APIToken instance))
         \<and> (AuthType instance = AuthTypeOAuth \<longrightarrow>
            authHeader c = ''Bearer '' @ OAuthToken instance))"
  by (auto simp: construct_defs EncodeToken_def Let_def split: sum.splits option.splits if_splits)

text \<open>Email \<open>a@b.com\<close> with token \<open>tok123\<close>, and an OAuth instance with access token \<open>acc\<close>.\<close>

theorem authorization_header_witness:
  "(\<exists>c. NewClientWithCache sampleOs tokenInstance True = Inr c
        \<and> authHeader c = ''Basic YUBiLmNvbS90b2tlbjp0b2sxMjM='')
   \<and> EncodeToString ''a@b.com/token:tok123'' = ''YUBiLmNvbS90b2tlbjp0b2sxMjM=''
   \<and> (\<exists>c. NewClientWithCache sampleOs oauthInstance True = Inr c
        \<and> authHeader c = ''Bearer acc'')"
  using authorization_header [of tokenInstance sampleOs True]
    authorization_header [of oauthInstance sampleOs True]
  by (simp add: tokenInstance_def oauthInstance_def AuthTypeToken_def AuthTypeOAuth_def
      EncodeToString_def b64_char_def)

section \<open>Classified errors\<close>

text \<open>
  Claim C6, as the code has it. A body that parses as a remote error document with a
  non-empty error code gives an error with that code and description. Every other
  body, one that does not parse or one that parses with an empty error code, gives a
  generic error whose message comes from the table: 400 Bad
  Request, 401 Authentication Failed, 403 Access Denied, 404 Resource Not Found, 422
  Invalid Input, 429 Rate Limit Exceeded, 500 Zendesk Server Error, 503 Zendesk Service
  Unavailable, and \<open>HTTP S Error\<close> for every other status \<open>S\<close>, the other 5xx
  statuses among them. The error is a rate-limit error exactly for 429, an auth error
  exactly for 401 and 403, a not-found error exactly for 404.
\<close>

theorem ParseAPIError_classification:
  "(unmarshal body = Some zdErr \<and> zdError zdErr \<noteq> [] \<longrightarrow>
      ParseAPIError unmarshal S body
        = APIErr \<lparr>StatusCode = S, Message = zdError zdErr, Description = zdDescription zdErr,
                  Details = zdDetails zdErr\<rparr>)
   \<and> (unmarshal body = None \<or> (\<exists>z. unmarshal body = Some z \<and> zdError z = []) \<longrightarrow>
      ParseAPIError unmarshal S body
        = APIErr \<lparr>StatusCode = S, Message = getStatusMessage S, Description = body,
                  Details = None\<rparr>)
   \<and> getStatusMessage 400 = ''Bad Request''
   \<and> getStatusMessage 401 = ''Authentication Failed''
   \<and> getStatusMessage 403 = ''Access Denied''
   \<and> getStatusMessage 404 = ''Resource Not Found''
   \<and> getStatusMessage 422 = ''Invalid Input''
   \<and> getStatusMessage 429 = ''Rate Limit Exceeded''
   \<and> getStatusMessage 500 = ''Zendesk Server Error''
   \<and> getStatusMessage 503 = ''Zendesk Service Unavailable''
   \<and> (S \<notin> {400, 401, 403, 404, 422, 429, 500, 503} \<longrightarrow>
        getStatusMessage S = ''HTTP '' @ fmt_d S @ '' Error'')
   \<and> IsRateLimitError (ParseAPIError unmarshal S body) = (S = 429)
   \<and> IsAuthError (ParseAPIError unmarshal S body) = (S = 401 \<or> S = 403)
   \<and> IsNotFoundError (ParseAPIError unmarshal S body) = (S = 404)"
  by (auto simp: ParseAPIError_def getStatusMessage_def Let_def split: option.splits)

text \<open>
  A structured 404, an unparsable 429, a 401 whose body parses without an error code,
  and the message of a status outside the table.
\<close>

theorem ParseAPIError_classification_witness:
  "ParseAPIError sampleUnmarshal 404 ''remote-error-json''
     = APIErr \<lparr>StatusCode = 404, Message = ''RecordNotFound'', Description = ''Not found'',
               Details = None\<rparr>
   \<and> ParseAPIError sampleUnmarshal 429 ''<html>''
     = APIErr \<lparr>StatusCode = 429, Message = ''Rate Limit Exceeded'', Description = ''<html>'',
               Details = None\<rparr>
   \<and> ParseAPIError sampleUnmarshal 401 ''{}''
     = APIErr \<lparr>StatusCode = 401, Message = ''Authentication Failed'', Description = ''{}'',
               Details = None\<rparr>
   \<and> getStatusMessage 418 = ''HTTP 418 Error''
   \<and> IsRateLimitError (ParseAPIError sampleUnmarshal 429 ''<html>'')
   \<and> IsNotFoundError (ParseAPIError sampleUnmarshal 404 ''remote-error-json'')"
  using ParseAPIError_classification [of sampleUnmarshal "''remote-error-json''"
      sampleZendeskError 404]
    ParseAPIError_classification [of sampleUnmarshal "''<html>''" sampleZendeskError 429]
    ParseAPIError_classification [of sampleUnmarshal "''<html>''" sampleZendeskError 418]
    ParseAPIError_classification [of sampleUnmarshal "''{}''" sampleZendeskError 401]
  by (simp add: sampleUnmarshal_def sampleZendeskError_def emptyZendeskError_def fmt_d_def
      digits_nat.simps digit_char_def)

text \<open>Status 502 is a 5xx status whose message is neither of the two server messages.\<close>

theorem status_502_counterexample:
  "(500 :: int) \<le> 502 \<and> (502 :: int) < 600
   \<and> ParseAPIError sampleUnmarshal 502 ''<html>''
       = APIErr \<lparr>StatusCode = 502, Message = ''HTTP 502 Error'', Description = ''<html>'',
                 Details = None\<rparr>
   \<and> getStatusMessage 502 \<noteq> ''Zendesk Server Error''
   \<and> getStatusMessage 502 \<noteq> ''Zendesk Service Unavailable''"
  by (simp add: ParseAPIError_def getStatusMessage_def sampleUnmarshal_def
      sampleZendeskError_def emptyZendeskError_def fmt_d_def digits_nat.simps digit_char_def)

section \<open>Cache invalidation on a ticket update\<close>

lemma digit_char_inj: "k < 10 \<Longrightarrow> k' < 10 \<Longrightarrow> digit_char k = digit_char k' \<Longrightarrow> k = k'"
proof -
  assume "k < 10" and "k' < 10" and eq: "digit_char k = digit_char k'"
  then have "k \<in> {0, 1, 2, 3, 4, 5, 6, 7, 8, 9}" and "k' \<in> {0, 1, 2, 3, 4, 5, 6, 7, 8, 9}"
    by auto
  then show ?thesis using eq by (auto simp: digit_char_def)
qed

lemma digits_nat_nonempty: "digits_nat n \<noteq> []"
  by (subst digits_nat.simps) simp

lemma digits_nat_inj: "digits_nat n = digits_nat m \<Longrightarrow> n = m"
proof (induction n arbitrary: m rule: digits_nat.induct)
  case (1 n)
  show ?case
  proof (cases "n < 10")
    case True
    then have n: "digits_nat n = [digit_char n]"
      by (subst digits_nat.simps) simp
    show ?thesis
    proof (cases "m < 10")
      case m: True
      then have "digits_nat m = [digit_char m]"
        by (subst digits_nat.simps) simp
      then show ?thesis using "1.prems" n True m digit_char_inj by simp
    next
      case False
      then have "digits_nat m = digits_nat (m div 10) @ [digit_char (m mod 10)]"
        by (subst digits_nat.simps) simp
      then show ?thesis using "1.prems" n digits_nat_nonempty [of "m div 10"] by simp
    qed
  next
    case False
    then have n: "digits_nat n = digits_nat (n div 10) @ [digit_char (n mod 10)]"
      by (subst digits_nat.simps) simp
    show ?thesis
    proof (cases "m < 10")
      case True
      then have "digits_nat m = [digit_char m]"
        by (subst digits_nat.simps) simp
      then show ?thesis using "1.prems" n digits_nat_nonempty [of "n div 10"] by simp
    next
      case m: False
      then have "digits_nat m = digits_nat (m div 10) @ [digit_char (m mod 10)]"
        by (subst digits_nat.simps) simp
      then have init: "digits_nat (n div 10) = digits_nat (m div 10)"
        and last: "digit_char (n mod 10) = digit_char (m mod 10)"
        using "1.prems" n by simp_all
      have d: "n div 10 = m div 10" using "1.IH" [OF False init] .
      have "n mod 10 < 10" and "m mod 10 < 10" by simp_all
      then have r: "n mod 10 = m mod 10" using last by (rule digit_char_inj)
      have "n = 10 * (n div 10) + n mod 10" by simp
      also have "\<dots> = 10 * (m div 10) + m mod 10" using d r by simp
      also have "\<dots> = m" by simp
      finally show ?thesis .
    qed
  qed
qed

lemma fmt_d_inj: "fmt_d i = fmt_d j \<Longrightarrow> i = j"
proof -
  assume eq: "fmt_d i = fmt_d j"
  have minus: "CHR ''-'' \<notin> set ''0123456789''" by simp
  have no_minus: "\<And>n rest. digits_nat n \<noteq> CHR ''-'' # rest"
  proof
    fix n rest assume "digits_nat n = CHR ''-'' # rest"
    then have "CHR ''-'' \<in> set (digits_nat n)" by simp
    then show False using digits_nat_chars [of n] minus by blast
  qed
  show ?thesis
  proof (cases "i < 0")
    case True
    show ?thesis
    proof (cases "j < 0")
      case j: True
      then have "digits_nat (nat (- i)) = digits_nat (nat (- j))"
        using eq True by (simp add: fmt_d_def)
      then have "nat (- i) = nat (- j)" by (rule digits_nat_inj)
      then show ?thesis using True j by simp
    next
      case False
      then have "digits_nat (nat j) = CHR ''-'' # digits_nat (nat (- i))"
        using eq True by (simp add: fmt_d_def)
      then show ?thesis using no_minus by blast
    qed
  next
    case False
    show ?thesis
    proof (cases "j < 0")
      case True
      then have "digits_nat (nat i) = CHR ''-'' # digits_nat (nat (- j))"
        using eq False by (simp add: fmt_d_def)
      then show ?thesis using no_minus by blast
    next
      case j: False
      then have "digits_nat (nat i) = digits_nat (nat j)"
        using eq False by (simp add: fmt_d_def)
      then have "nat i = nat j" by (rule digits_nat_inj)
      then show ?thesis using False j by simp
    qed
  qed
qed


lemma keyToPath_neq:
  "Sum256Hex L k \<noteq> Sum256Hex L k' \<Longrightarrow> keyToPath L c k \<noteq> keyToPath L c k'"
  by (simp add: keyToPath_def)

lemma ticket_key_not_list:
  "sub @ '':tickets:list:'' @ fmt_d page @ '':'' @ fmt_d perPage @ '':'' @ status
     \<noteq> sub @ '':tickets:'' @ fmt_d T"
proof
  assume "sub @ '':tickets:list:'' @ fmt_d page @ '':'' @ fmt_d perPage @ '':'' @ status
            = sub @ '':tickets:'' @ fmt_d T"
  then have "fmt_d T = ''list:'' @ fmt_d page @ '':'' @ fmt_d perPage @ '':'' @ status"
    by simp
  then have "CHR ''l'' \<in> set (fmt_d T)" by simp
  then show False using fmt_d_no_l by blast
qed

lemma ticket_key_not_search:
  "sub @ '':tickets:search:'' @ query \<noteq> sub @ '':tickets:'' @ fmt_d T"
proof
  assume "sub @ '':tickets:search:'' @ query = sub @ '':tickets:'' @ fmt_d T"
  then have "fmt_d T = ''search:'' @ query" by simp
  then have "CHR ''s'' \<in> set (fmt_d T)" by simp
  then show False using fmt_d_no_s by blast
qed

lemma ticket_key_not_other:
  "other \<noteq> T \<Longrightarrow> sub @ '':tickets:'' @ fmt_d other \<noteq> sub @ '':tickets:'' @ fmt_d T"
  using fmt_d_inj by auto

lemma UpdateTicket_files:
  "UpdateTicket L decode roundTrip c files ticketID req = (Inr ticket, files', sent) \<Longrightarrow>
     files' = (case cache c of
                 Some ch \<Rightarrow> Remove files (keyToPath L ch (GetTicket_key c ticketID))
               | None \<Rightarrow> files)"
  by (auto simp: UpdateTicket_def Delete_def split: prod.splits sum.splits option.splits)

lemma cacheLookup_removed:
  "cacheLookup L now c
     (case cache c of Some ch \<Rightarrow> Remove files (keyToPath L ch key) | None \<Rightarrow> files) key
   = ([], False, (case cache c of Some ch \<Rightarrow> Remove files (keyToPath L ch key) | None \<Rightarrow> files))"
  by (simp add: cacheLookup_def Get_def ReadFile_def Remove_def Let_def split: option.splits)

text \<open>
  Claim C2. A successful \<open>UpdateTicket\<close> of ticket \<open>T\<close> removes from the cache
  directory the file of the key \<open>subdomain:tickets:T\<close> and changes no other path (a
  client without a cache changes nothing). Whatever the time, the next lookup of that
  key by the same client misses, and the next \<open>GetTicket\<close> of \<open>T\<close> sends its request to
  the remote side. The list keys, the search keys and the keys of the other tickets
  are keys other than the one removed, and the file of any key whose digest is not
  the digest of the removed key stays as it was.
\<close>

theorem UpdateTicket_invalidates_ticket_entry:
  assumes "UpdateTicket L decode roundTrip c files ticketID req = (Inr ticket, files', sent)"
  shows "files' = (case cache c of
                     Some ch \<Rightarrow> Remove files
                                  (keyToPath L ch (subdomain c @ '':tickets:'' @ fmt_d ticketID))
                   | None \<Rightarrow> files)
         \<and> (\<forall>ch p. cache c = Some ch
               \<and> p \<noteq> keyToPath L ch (subdomain c @ '':tickets:'' @ fmt_d ticketID) \<longrightarrow>
               files' p = files p)
         \<and> (\<forall>now. cacheLookup L now c files' (subdomain c @ '':tickets:'' @ fmt_d ticketID)
                      = ([], False, files'))
         \<and> GetTicket_key c ticketID = subdomain c @ '':tickets:'' @ fmt_d ticketID
         \<and> (\<forall>now decode' roundTrip'.
               snd (snd (GetTicket L decode' roundTrip' now c files' ticketID))
                 = [newRequest c ''GET'' (''/tickets/'' @ fmt_d ticketID @ ''.json'') None])
         \<and> (\<forall>page perPage status.
               ListTickets_key c page perPage status
                 = subdomain c @ '':tickets:list:'' @ fmt_d page @ '':'' @ fmt_d perPage
                     @ '':'' @ status
               \<and> ListTickets_key c page perPage status
                   \<noteq> subdomain c @ '':tickets:'' @ fmt_d ticketID)
         \<and> (\<forall>query.
               SearchTickets_key c query = subdomain c @ '':tickets:search:'' @ query
               \<and> SearchTickets_key c query \<noteq> subdomain c @ '':tickets:'' @ fmt_d ticketID)
         \<and> (\<forall>other. other \<noteq> ticketID \<longrightarrow>
               GetTicket_key c other \<noteq> subdomain c @ '':tickets:'' @ fmt_d ticketID)
         \<and> (\<forall>ch key. cache c = Some ch
               \<and> Sum256Hex L key
                   \<noteq> Sum256Hex L (subdomain c @ '':tickets:'' @ fmt_d ticketID) \<longrightarrow>
               files' (keyToPath L ch key) = files (keyToPath L ch key))"
proof -
  let ?key = "subdomain c @ '':tickets:'' @ fmt_d ticketID"
  have key: "GetTicket_key c ticketID = ?key"
    by (simp add: GetTicket_key_def)
  have f: "files' = (case cache c of
                     Some ch \<Rightarrow> Remove files (keyToPath L ch ?key)
                   | None \<Rightarrow> files)"
    using UpdateTicket_files [OF assms] by (simp only: key)
  have others: "\<And>ch p. cache c = Some ch \<and> p \<noteq> keyToPath L ch ?key \<Longrightarrow> files' p = files p"
    by (simp add: f Remove_def)
  have miss: "\<And>now. cacheLookup L now c files' ?key = ([], False, files')"
    unfolding f by (rule cacheLookup_removed)
  have next_read: "\<And>now decode' roundTrip'.
      snd (snd (GetTicket L decode' roundTrip' now c files' ticketID))
        = [newRequest c ''GET'' (''/tickets/'' @ fmt_d ticketID @ ''.json'') None]"
    unfolding GetTicket_def key using miss by (rule cachedRead_miss)
  have list: "\<And>page perPage status.
      ListTickets_key c page perPage status
        = subdomain c @ '':tickets:list:'' @ fmt_d page @ '':'' @ fmt_d perPage @ '':'' @ status
      \<and> ListTickets_key c page perPage status \<noteq> ?key"
    using ticket_key_not_list by (simp add: ListTickets_key_def)
  have search: "\<And>query.
      SearchTickets_key c query = subdomain c @ '':tickets:search:'' @ query
      \<and> SearchTickets_key c query \<noteq> ?key"
    using ticket_key_not_search by (simp add: SearchTickets_key_def)
  have other: "\<And>other. other \<noteq> ticketID \<Longrightarrow> GetTicket_key c other \<noteq> ?key"
    using ticket_key_not_other by (simp add: GetTicket_key_def)
  have frame: "\<And>ch key. cache c = Some ch \<and> Sum256Hex L key \<noteq> Sum256Hex L ?key \<Longrightarrow>
      files' (keyToPath L ch key) = files (keyToPath L ch key)"
    using keyToPath_neq others by blast
  show ?thesis
    using f others miss key next_read list search other frame by blast
qed


text \<open>
  Ticket 500 is cached and found, then updated: its file is gone, the file of the first
  list page, whose digest is another one, is still there, and reading ticket 500 again
  goes to the remote side.
\<close>

theorem UpdateTicket_invalidates_ticket_entry_witness:
  "UpdateTicket sampleLib sampleDecode okTransport sampleClient sampleFiles 500 closeRequest
       = (Inr ''ticket-json'', Remove sampleFiles samplePath,
          [newRequest sampleClient ''PUT'' ''/tickets/500.json''
             (Some (UpdateTicket_body closeRequest))])
   \<and> fst (Get sampleLib 50 sampleCache sampleFiles ''acme:tickets:500'') = ''payload''
   \<and> Remove sampleFiles samplePath samplePath = None
   \<and> Remove sampleFiles samplePath sampleListPath = Some (File ''entry-bytes'')
   \<and> Sum256Hex sampleLib ''acme:tickets:list:1:100:open''
       \<noteq> Sum256Hex sampleLib ''acme:tickets:500''
   \<and> map reqURL (snd (snd (GetTicket sampleLib sampleDecode okTransport 50 sampleClient
                              (Remove sampleFiles samplePath) 500)))
       = [''https://acme.zendesk.com/api/v2/tickets/500.json'']"
proof -
  have five: "fmt_d 500 = ''500''"
    by (simp add: fmt_d_def digits_nat.simps digit_char_def)
  have path: "keyToPath sampleLib sampleCache ''acme:tickets:500'' = samplePath"
    by (simp add: keyToPath_def sampleLib_def sampleCache_def sampleDigest_def samplePath_def)
  have upd: "UpdateTicket sampleLib sampleDecode okTransport sampleClient sampleFiles 500
               closeRequest
       = (Inr ''ticket-json'', Remove sampleFiles samplePath,
          [newRequest sampleClient ''PUT'' ''/tickets/500.json''
             (Some (UpdateTicket_body closeRequest))])"
    using path
    by (simp add: UpdateTicket_def makeTicketRequest_def Delete_def GetTicket_key_def
        sampleClient_def okTransport_def sampleDecode_def five)
  have before: "fst (Get sampleLib 50 sampleCache sampleFiles ''acme:tickets:500'') = ''payload''"
    by (simp add: sample_cache_defs)
  have gone: "Remove sampleFiles samplePath samplePath = None"
    by (simp add: Remove_def)
  have kept: "Remove sampleFiles samplePath sampleListPath = Some (File ''entry-bytes'')"
    by (simp add: Remove_def sampleFiles_def samplePath_def sampleListPath_def)
  have digest: "Sum256Hex sampleLib ''acme:tickets:list:1:100:open''
                  \<noteq> Sum256Hex sampleLib ''acme:tickets:500''"
    by (simp add: sampleLib_def sampleDigest_def)
  have base: "GetBaseURL sampleClient = ''https://acme.zendesk.com/api/v2''"
    by (simp add: GetBaseURL_def sampleClient_def)
  have "snd (snd (GetTicket sampleLib sampleDecode okTransport 50 sampleClient
                    (Remove sampleFiles samplePath) 500))
          = [newRequest sampleClient ''GET'' (''/tickets/'' @ fmt_d 500 @ ''.json'') None]"
    using UpdateTicket_invalidates_ticket_entry [OF upd] by blast
  then have again: "map reqURL (snd (snd (GetTicket sampleLib sampleDecode okTransport 50
                                            sampleClient (Remove sampleFiles samplePath) 500)))
       = [''https://acme.zendesk.com/api/v2/tickets/500.json'']"
    by (simp add: newRequest_def base five)
  show ?thesis using upd before gone kept digest again by blast
qed

section \<open>Optional ids on create and update\<close>

lemma CreateTicket_body_ids:
  "ticketField ''assignee_id'' (CreateTicket_body req) = map_option JInt (ctAssigneeID req)"
  "ticketField ''group_id'' (CreateTicket_body req) = map_option JInt (ctGroupID req)"
  by (simp_all add: CreateTicket_body_def ticketField_def split: option.splits)

lemma UpdateTicket_body_ids:
  "ticketField ''assignee_id'' (UpdateTicket_body req) = map_option JInt (utAssigneeID req)"
  "ticketField ''group_id'' (UpdateTicket_body req) = map_option JInt (utGroupID req)"
  by (simp_all add: UpdateTicket_body_def ticketField_def split: option.splits)


lemma runTicketCreate_request_ids:
  assumes "runTicketCreate_request promptString fl = Inr req"
  shows "ctAssigneeID req = (if fAssignee fl > 0 then Some (fAssignee fl) else None)"
    and "ctGroupID req = (if fGroup fl > 0 then Some (fGroup fl) else None)"
proof -
  obtain subject description where
    "req = \<lparr>ctSubject = subject, ctDescription = description,
            ctPriority = fPriority fl, ctType = fType fl, ctStatus = fStatus fl,
            ctAssigneeID = (if fAssignee fl > 0 then Some (fAssignee fl) else None),
            ctGroupID = (if fGroup fl > 0 then Some (fGroup fl) else None),
            ctTags = fTags fl\<rparr>"
    using assms unfolding runTicketCreate_request_def
    by (cases "if fSubject fl = [] then promptString ''Subject'' else Inr (fSubject fl)";
        cases "if fDescription fl = [] then promptString ''Description''
               else Inr (fDescription fl)") auto
  then show "ctAssigneeID req = (if fAssignee fl > 0 then Some (fAssignee fl) else None)"
    and "ctGroupID req = (if fGroup fl > 0 then Some (fGroup fl) else None)"
    by simp_all
qed

lemma runTicketUpdate_request_ids:
  assumes "runTicketUpdate_request fl = Inr req"
  shows "utAssigneeID req = flagValue (uAssignee fl)"
    and "utGroupID req = flagValue (uGroup fl)"
proof -
  have "req = \<lparr>utSubject = flagValue (uSubject fl), utPriority = flagValue (uPriority fl),
                 utStatus = flagValue (uStatus fl), utAssigneeID = flagValue (uAssignee fl),
                 utGroupID = flagValue (uGroup fl),
                 utTags = (if Changed (uTags fl) then Value (uTags fl) else []),
                 utComment = None\<rparr>"
    using assms unfolding runTicketUpdate_request_def Let_def
    by (simp split: if_splits)
  then show "utAssigneeID req = flagValue (uAssignee fl)"
    and "utGroupID req = flagValue (uGroup fl)"
    by simp_all
qed

lemma runTicketCreate_sent:
  assumes "runTicketCreate_request promptString fl = Inr req"
  shows "snd (runTicketCreate promptString decode roundTrip c fl)
       = [newRequest c ''POST'' ''/tickets.json'' (Some (CreateTicket_body req))]"
proof -
  obtain res sent where m:
    "makeTicketRequest decode roundTrip c ''POST'' ''/tickets.json'' (CreateTicket_body req)
       = (res, sent)"
    by (cases "makeTicketRequest decode roundTrip c ''POST'' ''/tickets.json''
                 (CreateTicket_body req)") auto
  then have "sent = [newRequest c ''POST'' ''/tickets.json'' (Some (CreateTicket_body req))]"
    by (auto simp: makeTicketRequest_def Let_def split: sum.splits option.splits if_splits)
  then show ?thesis
    using assms m by (cases res) (simp_all add: runTicketCreate_def CreateTicket_def)
qed

lemma runTicketUpdate_sent:
  assumes "runTicketUpdate_request fl = Inr req"
  shows "snd (snd (runTicketUpdate L decode roundTrip c files ticketID fl))
       = [newRequest c ''PUT'' (''/tickets/'' @ fmt_d ticketID @ ''.json'')
            (Some (UpdateTicket_body req))]"
proof -
  obtain res sent where m:
    "makeTicketRequest decode roundTrip c ''PUT'' (''/tickets/'' @ fmt_d ticketID @ ''.json'')
       (UpdateTicket_body req) = (res, sent)"
    by (cases "makeTicketRequest decode roundTrip c ''PUT''
                 (''/tickets/'' @ fmt_d ticketID @ ''.json'') (UpdateTicket_body req)") auto
  then have "sent = [newRequest c ''PUT'' (''/tickets/'' @ fmt_d ticketID @ ''.json'')
                       (Some (UpdateTicket_body req))]"
    by (auto simp: makeTicketRequest_def Let_def split: sum.splits option.splits if_splits)
  then show ?thesis
    using assms m by (cases res) (simp_all add: runTicketUpdate_def UpdateTicket_def)
qed


text \<open>
  What the two commands put into the request body: \<open>ticket create\<close> writes an id only
  when the flag value is above zero, \<open>ticket update\<close> writes it whenever the flag was
  given, with the value given.
\<close>

lemma optional_ids_in_request_body:
  "(runTicketCreate_request promptString fl = Inr req \<longrightarrow>
      snd (runTicketCreate promptString decode roundTrip c fl)
        = [newRequest c ''POST'' ''/tickets.json'' (Some (CreateTicket_body req))]
      \<and> ticketField ''assignee_id'' (CreateTicket_body req)
          = (if fAssignee fl > 0 then Some (JInt (fAssignee fl)) else None)
      \<and> ticketField ''group_id'' (CreateTicket_body req)
          = (if fGroup fl > 0 then Some (JInt (fGroup fl)) else None))
   \<and> (runTicketUpdate_request ufl = Inr ureq \<longrightarrow>
      snd (snd (runTicketUpdate L decode roundTrip c files ticketID ufl))
        = [newRequest c ''PUT'' (''/tickets/'' @ fmt_d ticketID @ ''.json'')
             (Some (UpdateTicket_body ureq))]
      \<and> ticketField ''assignee_id'' (UpdateTicket_body ureq)
          = (if Changed (uAssignee ufl) then Some (JInt (Value (uAssignee ufl))) else None)
      \<and> ticketField ''group_id'' (UpdateTicket_body ureq)
          = (if Changed (uGroup ufl) then Some (JInt (Value (uGroup ufl))) else None))"
proof (intro conjI impI)
  assume a: "runTicketCreate_request promptString fl = Inr req"
  show "snd (runTicketCreate promptString decode roundTrip c fl)
        = [newRequest c ''POST'' ''/tickets.json'' (Some (CreateTicket_body req))]"
    using a by (rule runTicketCreate_sent)
  show "ticketField ''assignee_id'' (CreateTicket_body req)
          = (if fAssignee fl > 0 then Some (JInt (fAssignee fl)) else None)"
    by (simp add: CreateTicket_body_ids runTicketCreate_request_ids [OF a])
  show "ticketField ''group_id'' (CreateTicket_body req)
          = (if fGroup fl > 0 then Some (JInt (fGroup fl)) else None)"
    by (simp add: CreateTicket_body_ids runTicketCreate_request_ids [OF a])
next
  assume a: "runTicketUpdate_request ufl = Inr ureq"
  show "snd (snd (runTicketUpdate L decode roundTrip c files ticketID ufl))
        = [newRequest c ''PUT'' (''/tickets/'' @ fmt_d ticketID @ ''.json'')
             (Some (UpdateTicket_body ureq))]"
    using a by (rule runTicketUpdate_sent)
  show "ticketField ''assignee_id'' (UpdateTicket_body ureq)
          = (if Changed (uAssignee ufl) then Some (JInt (Value (uAssignee ufl))) else None)"
    by (simp add: UpdateTicket_body_ids runTicketUpdate_request_ids [OF a] flagValue_def)
  show "ticketField ''group_id'' (UpdateTicket_body ureq)
          = (if Changed (uGroup ufl) then Some (JInt (Value (uGroup ufl))) else None)"
    by (simp add: UpdateTicket_body_ids runTicketUpdate_request_ids [OF a] flagValue_def)
qed

lemmas sample_flag_defs =
  assigneeZeroFlags_def createFlags_def noFlag_def setFlag_def flagValue_def

text \<open>
  Claim C9. A zero given for an optional id is to be left out of the request body on
  the create path and on the update path alike. \<open>ticket create\<close> with assignee 0 leaves
  the assignee out. \<open>ticket update 500 --assignee 0\<close> and \<open>ticket assign 500 0\<close> send
  \<open>assignee_id\<close> with the literal value 0.
\<close>

theorem update_sends_zero_assignee:
  "fAssignee createFlags = 0
   \<and> map reqBody (snd (runTicketCreate Inl sampleDecode okTransport sampleClient createFlags))
     = [Some (JObject [(''ticket'', JObject
          [(''subject'', JString ''Printer''),
           (''comment'', JObject [(''body'', JString ''It is on fire'')]),
           (''type'', JString ''incident''), (''status'', JString ''new''),
           (''group_id'', JInt 7)])])]
   \<and> Value (uAssignee assigneeZeroFlags) = 0
   \<and> map reqBody (snd (snd (runTicketUpdate sampleLib sampleDecode okTransport sampleClient
                               sampleFiles 500 assigneeZeroFlags)))
       = [Some (JObject [(''ticket'', JObject [(''assignee_id'', JInt 0)])])]
   \<and> map reqBody (snd (snd (runTicketAssign sampleLib sampleDecode okTransport sampleClient
                               sampleFiles 500 0)))
       = [Some (JObject [(''ticket'', JObject [(''assignee_id'', JInt 0)])])]"
  by (simp add: sample_flag_defs runTicketCreate_def runTicketCreate_request_def
      CreateTicket_def CreateTicket_body_def runTicketUpdate_def runTicketUpdate_request_def
      runTicketAssign_def runTicketAssign_request_def UpdateTicket_def UpdateTicket_body_def
      makeTicketRequest_def newRequest_def okTransport_def sampleDecode_def sampleClient_def
      Delete_def)

section \<open>State check of the OAuth callback\<close>









lemmas oauth_eval =
  PerformOAuthFlow_def flowChans_def callbackHandler_def sendErr_def sendCode_def
  shutdownBackground_def forgedCallback_def genuineCallback_def sampleExchange_def
  PerformOAuthFlow_state_def Unix_def Second_def fmt_d_def digits_nat.simps digit_char_def
  Let_def



text \<open>
  Three forged callbacks in flight: the flow receives one error, a second handler
  completes its send, the third stays blocked on the full channel, and the shutdown
  without a deadline waits for it: the flow does not return.
\<close>

lemma three_forged_callbacks_block_shutdown:
  "PerformOAuthFlow sampleExchange 1700000000000000000 None
       [forgedCallback, forgedCallback, forgedCallback] None FromErrChan
     = NeverReturns [Shutdown]"
  by (simp add: oauth_eval)

section \<open>Waits and outcomes of the retry helper\<close>

lemma wrap64_id: "- (2 ^ 63) \<le> x \<Longrightarrow> x < 2 ^ 63 \<Longrightarrow> wrap64 x = x"
  by (simp add: wrap64_def)

lemma retryAfterWait_in_range:
  "- (2 ^ 63) \<le> seconds * Second \<Longrightarrow> seconds * Second < 2 ^ 63 \<Longrightarrow>
     retryAfterWait DefaultRetryConfig seconds = min (seconds * Second) (30 * Second)"
  by (simp add: retryAfterWait_def wrap64_id DefaultRetryConfig_def Let_def min_def)

lemma backoffWait_default:
  "backoffWait DefaultRetryConfig attempt = min (1 * Second * 2 ^ attempt) (30 * Second)"
  by (simp add: backoffWait_def DefaultRetryConfig_def Let_def min_def)

lemma MaxRetries_default: "MaxRetries DefaultRetryConfig = 3"
  by (simp add: DefaultRetryConfig_def)

lemma retryLoop_returns:
  "attempt \<le> MaxRetries config \<Longrightarrow> fn attempt = Inr resp \<Longrightarrow>
   respStatusCode resp < 500 \<Longrightarrow> respStatusCode resp \<noteq> 429 \<Longrightarrow>
     retryLoop config fn ctxDone attempt lastErr waits = (Returned resp, waits)"
  by (subst retryLoop.simps) simp

lemma fmt_d_429: "fmt_d 429 = ''429''"
  by (simp add: fmt_d_def digits_nat.simps digit_char_def)

lemma retryAfterSeconds_429: "retryAfterSeconds resp = Some seconds \<Longrightarrow> respStatusCode resp = 429"
  by (simp add: retryAfterSeconds_def split: if_splits)

lemma retryLoop_retry_after:
  "attempt \<le> MaxRetries config \<Longrightarrow> fn attempt = Inr resp \<Longrightarrow>
   retryAfterSeconds resp = Some seconds \<Longrightarrow>
     retryLoop config fn ctxDone attempt lastErr waits =
       (if ctxDone attempt then (CtxErr, waits @ [(retryAfterWait config seconds, False)])
        else retryLoop config fn ctxDone (Suc attempt) ''HTTP 429''
               (waits @ [(retryAfterWait config seconds, True)]))"
  by (subst retryLoop.simps) (auto simp: Let_def fmt_d_429 dest: retryAfterSeconds_429)

lemma retryLoop_backoff:
  "attempt < MaxRetries config \<Longrightarrow> attemptFailed (fn attempt) \<Longrightarrow>
   (\<forall>resp. fn attempt = Inr resp \<longrightarrow> retryAfterSeconds resp = None) \<Longrightarrow>
     retryLoop config fn ctxDone attempt lastErr waits =
       (if ctxDone attempt then (CtxErr, waits @ [(backoffWait config attempt, False)])
        else retryLoop config fn ctxDone (Suc attempt) (attemptError (fn attempt))
               (waits @ [(backoffWait config attempt, True)]))"
  by (subst retryLoop.simps) (cases "fn attempt"; auto simp: Let_def)

lemma retryLoop_last:
  "attempt = MaxRetries config \<Longrightarrow> attemptFailed (fn attempt) \<Longrightarrow>
   (\<forall>resp. fn attempt = Inr resp \<longrightarrow> retryAfterSeconds resp = None) \<Longrightarrow>
     retryLoop config fn ctxDone attempt lastErr waits =
       (GaveUp (''request failed after '' @ fmt_d (int (MaxRetries config)) @ '' retries: ''
                 @ attemptError (fn attempt)), waits)"
  by (subst retryLoop.simps) (cases "fn attempt"; auto simp: Let_def)

lemma retryLoop_past:
  "\<not> attempt \<le> MaxRetries config \<Longrightarrow>
     retryLoop config fn ctxDone attempt lastErr waits =
       (GaveUp (''request failed after '' @ fmt_d (int (MaxRetries config)) @ '' retries: ''
                 @ lastErr), waits)"
  by (subst retryLoop.simps) simp


lemma attempt_cases:
  obtains (ok) resp where "fn attempt = Inr resp" "respStatusCode resp < 500"
                          "respStatusCode resp \<noteq> 429"
  | (retry_after) resp seconds where "fn attempt = Inr resp"
                          "retryAfterSeconds resp = Some seconds"
  | (backoff) "attemptFailed (fn attempt)"
              "\<forall>resp. fn attempt = Inr resp \<longrightarrow> retryAfterSeconds resp = None"
proof (cases "fn attempt")
  case (Inl err)
  then show ?thesis using backoff by simp
next
  case (Inr resp)
  show ?thesis
  proof (cases "retryAfterSeconds resp")
    case None
    show ?thesis
    proof (cases "respStatusCode resp < 500 \<and> respStatusCode resp \<noteq> 429")
      case True
      then show ?thesis using ok Inr by blast
    next
      case False
      then show ?thesis using backoff Inr None by simp
    qed
  next
    case (Some seconds)
    then show ?thesis using retry_after Inr by blast
  qed
qed

lemma retryLoop_gave_up:
  assumes "retryLoop config fn ctxDone attempt lastErr waits = (GaveUp msg, waits')"
      and "attempt \<le> MaxRetries config"
  shows "(\<forall>k. attempt \<le> k \<and> k \<le> MaxRetries config \<longrightarrow> attemptFailed (fn k))
         \<and> msg = ''request failed after '' @ fmt_d (int (MaxRetries config)) @ '' retries: ''
                   @ attemptError (fn (MaxRetries config))"
  using assms
proof (induction "MaxRetries config - attempt" arbitrary: attempt lastErr waits)
  case 0
  then have last: "attempt = MaxRetries config" by simp
  show ?case
  proof (cases rule: attempt_cases [of fn attempt])
    case (ok resp)
    then show ?thesis using "0.prems" by (simp add: retryLoop_returns)
  next
    case (retry_after resp seconds)
    have st: "respStatusCode resp = 429" using retry_after(2) by (rule retryAfterSeconds_429)
    have "\<not> Suc attempt \<le> MaxRetries config" using last by simp
    then have "msg = ''request failed after '' @ fmt_d (int (MaxRetries config)) @ '' retries: ''
                       @ ''HTTP 429''"
      using "0.prems" retry_after
      by (simp add: retryLoop_retry_after retryLoop_past split: if_splits)
    then show ?thesis using last retry_after(1) st by (auto simp: fmt_d_429)
  next
    case backoff
    then show ?thesis using "0.prems" last by (auto simp: retryLoop_last)
  qed
next
  case (Suc d)
  then have lt: "attempt < MaxRetries config" and d: "d = MaxRetries config - Suc attempt"
    by simp_all
  have le: "Suc attempt \<le> MaxRetries config" using lt by simp
  have step: "attemptFailed (fn attempt)
      \<and> (\<exists>lastErr' waits''. retryLoop config fn ctxDone (Suc attempt) lastErr' waits''
                                = (GaveUp msg, waits'))"
  proof (cases rule: attempt_cases [of fn attempt])
    case (ok resp)
    then show ?thesis using Suc.prems by (simp add: retryLoop_returns)
  next
    case (retry_after resp seconds)
    have st: "respStatusCode resp = 429" using retry_after(2) by (rule retryAfterSeconds_429)
    show ?thesis
      using Suc.prems retry_after st
      by (auto simp: retryLoop_retry_after split: if_splits)
  next
    case backoff
    then show ?thesis
      using Suc.prems lt by (auto simp: retryLoop_backoff split: if_splits)
  qed
  then obtain lastErr' waits'' where
    rec: "retryLoop config fn ctxDone (Suc attempt) lastErr' waits'' = (GaveUp msg, waits')"
    by blast
  have ih: "(\<forall>k. Suc attempt \<le> k \<and> k \<le> MaxRetries config \<longrightarrow> attemptFailed (fn k))
         \<and> msg = ''request failed after '' @ fmt_d (int (MaxRetries config)) @ '' retries: ''
                   @ attemptError (fn (MaxRetries config))"
    using Suc.hyps(1) [OF d rec le] .
  show ?case
  proof (intro conjI allI impI)
    fix k assume "attempt \<le> k \<and> k \<le> MaxRetries config"
    then have "k = attempt \<or> (Suc attempt \<le> k \<and> k \<le> MaxRetries config)" by auto
    then show "attemptFailed (fn k)" using step ih by blast
  next
    show "msg = ''request failed after '' @ fmt_d (int (MaxRetries config)) @ '' retries: ''
                   @ attemptError (fn (MaxRetries config))"
      using ih by blast
  qed
qed

lemma retryLoop_returned:
  assumes "retryLoop config fn ctxDone attempt lastErr waits = (Returned resp, waits')"
      and "attempt \<le> MaxRetries config"
  shows "\<exists>k. attempt \<le> k \<and> k \<le> MaxRetries config \<and> fn k = Inr resp
             \<and> respStatusCode resp < 500 \<and> respStatusCode resp \<noteq> 429
             \<and> (\<forall>j. attempt \<le> j \<and> j < k \<longrightarrow> attemptFailed (fn j))"
  using assms
proof (induction "MaxRetries config - attempt" arbitrary: attempt lastErr waits)
  case 0
  then have last: "attempt = MaxRetries config" by simp
  show ?case
  proof (cases rule: attempt_cases [of fn attempt])
    case (ok r)
    then have "r = resp" using "0.prems" by (simp add: retryLoop_returns)
    then show ?thesis using ok last by auto
  next
    case (retry_after r seconds)
    have "\<not> Suc attempt \<le> MaxRetries config" using last by simp
    then show ?thesis
      using "0.prems" retry_after
      by (simp add: retryLoop_retry_after retryLoop_past split: if_splits)
  next
    case backoff
    then show ?thesis using "0.prems" last by (auto simp: retryLoop_last)
  qed
next
  case (Suc d)
  then have lt: "attempt < MaxRetries config" and d: "d = MaxRetries config - Suc attempt"
    by simp_all
  have le: "Suc attempt \<le> MaxRetries config" using lt by simp
  show ?case
  proof (cases rule: attempt_cases [of fn attempt])
    case (ok r)
    then have "r = resp" using Suc.prems by (simp add: retryLoop_returns)
    then show ?thesis using ok Suc.prems(2) by auto
  next
    case (retry_after r seconds)
    have st: "respStatusCode r = 429" using retry_after(2) by (rule retryAfterSeconds_429)
    then have failed: "attemptFailed (fn attempt)" using retry_after(1) by simp
    obtain lastErr' waits'' where
      rec: "retryLoop config fn ctxDone (Suc attempt) lastErr' waits'' = (Returned resp, waits')"
      using Suc.prems retry_after
      by (auto simp: retryLoop_retry_after split: if_splits)
    obtain k where k: "Suc attempt \<le> k" "k \<le> MaxRetries config" "fn k = Inr resp"
        "respStatusCode resp < 500" "respStatusCode resp \<noteq> 429"
        "\<forall>j. Suc attempt \<le> j \<and> j < k \<longrightarrow> attemptFailed (fn j)"
      using Suc.hyps(1) [OF d rec le] by blast
    have "\<forall>j. attempt \<le> j \<and> j < k \<longrightarrow> attemptFailed (fn j)"
    proof (intro allI impI)
      fix j assume "attempt \<le> j \<and> j < k"
      then have "j = attempt \<or> (Suc attempt \<le> j \<and> j < k)" by auto
      then show "attemptFailed (fn j)" using failed k(6) by blast
    qed
    then show ?thesis using k by (intro exI [of _ k]) simp
  next
    case backoff
    obtain lastErr' waits'' where
      rec: "retryLoop config fn ctxDone (Suc attempt) lastErr' waits'' = (Returned resp, waits')"
      using Suc.prems backoff lt
      by (auto simp: retryLoop_backoff split: if_splits)
    obtain k where k: "Suc attempt \<le> k" "k \<le> MaxRetries config" "fn k = Inr resp"
        "respStatusCode resp < 500" "respStatusCode resp \<noteq> 429"
        "\<forall>j. Suc attempt \<le> j \<and> j < k \<longrightarrow> attemptFailed (fn j)"
      using Suc.hyps(1) [OF d rec le] by blast
    have "\<forall>j. attempt \<le> j \<and> j < k \<longrightarrow> attemptFailed (fn j)"
    proof (intro allI impI)
      fix j assume "attempt \<le> j \<and> j < k"
      then have "j = attempt \<or> (Suc attempt \<le> j \<and> j < k)" by auto
      then show "attemptFailed (fn j)" using backoff(1) k(6) by blast
    qed
    then show ?thesis using k by (intro exI [of _ k]) simp
  qed
qed

lemma fmt_d_3: "fmt_d 3 = ''3''"
  by (simp add: fmt_d_def digits_nat.simps digit_char_def)

lemma retryLoop_all_fail:
  assumes "attempt \<le> MaxRetries config"
      and "\<forall>k. attempt \<le> k \<and> k \<le> MaxRetries config \<longrightarrow> attemptFailed (fn k) \<and> \<not> ctxDone k"
  shows "fst (retryLoop config fn ctxDone attempt lastErr waits)
           = GaveUp (''request failed after '' @ fmt_d (int (MaxRetries config)) @ '' retries: ''
                      @ attemptError (fn (MaxRetries config)))"
  using assms
proof (induction "MaxRetries config - attempt" arbitrary: attempt lastErr waits)
  case 0
  then have last: "attempt = MaxRetries config" by simp
  have here: "attemptFailed (fn attempt)" "\<not> ctxDone attempt"
    using "0.prems" by simp_all
  show ?case
  proof (cases rule: attempt_cases [of fn attempt])
    case (ok resp)
    then show ?thesis using here by simp
  next
    case (retry_after resp seconds)
    have st: "respStatusCode resp = 429" using retry_after(2) by (rule retryAfterSeconds_429)
    have past: "\<not> Suc attempt \<le> MaxRetries config" using last by simp
    have "fst (retryLoop config fn ctxDone attempt lastErr waits)
            = GaveUp (''request failed after '' @ fmt_d (int (MaxRetries config))
                       @ '' retries: '' @ ''HTTP 429'')"
      using "0.prems"(1) retry_after here(2) past
      by (simp add: retryLoop_retry_after retryLoop_past)
    then show ?thesis using last retry_after(1) st by (simp add: fmt_d_429)
  next
    case backoff
    then show ?thesis using last by (simp add: retryLoop_last)
  qed
next
  case (Suc d)
  then have lt: "attempt < MaxRetries config" and d: "d = MaxRetries config - Suc attempt"
    by simp_all
  have le: "Suc attempt \<le> MaxRetries config" using lt by simp
  have here: "attemptFailed (fn attempt)" "\<not> ctxDone attempt"
    using Suc.prems by simp_all
  have rest: "\<forall>k. Suc attempt \<le> k \<and> k \<le> MaxRetries config
                \<longrightarrow> attemptFailed (fn k) \<and> \<not> ctxDone k"
    using Suc.prems(2) by simp
  show ?case
  proof (cases rule: attempt_cases [of fn attempt])
    case (ok resp)
    then show ?thesis using here by simp
  next
    case (retry_after resp seconds)
    then show ?thesis
      using Suc.prems(1) here(2) Suc.hyps(1) [OF d le rest]
      by (simp add: retryLoop_retry_after)
  next
    case backoff
    then show ?thesis
      using lt here(2) Suc.hyps(1) [OF d le rest]
      by (simp add: retryLoop_backoff)
  qed
qed

lemma retryLoop_first_success:
  assumes "k \<le> MaxRetries config" and "attempt \<le> k" and "fn k = Inr resp"
      and "respStatusCode resp < 500" and "respStatusCode resp \<noteq> 429"
      and "\<forall>j. attempt \<le> j \<and> j < k \<longrightarrow> attemptFailed (fn j) \<and> \<not> ctxDone j"
  shows "fst (retryLoop config fn ctxDone attempt lastErr waits) = Returned resp"
  using assms(2,6)
proof (induction "k - attempt" arbitrary: attempt lastErr waits)
  case 0
  then have "attempt = k" by simp
  then show ?case using assms(1,3,4,5) by (simp add: retryLoop_returns)
next
  case (Suc d)
  then have lt: "attempt < k" and d: "d = k - Suc attempt" by simp_all
  have le: "Suc attempt \<le> k" using lt by simp
  have ltm: "attempt < MaxRetries config" using lt assms(1) by simp
  have here: "attemptFailed (fn attempt)" "\<not> ctxDone attempt"
    using Suc.prems(2) lt by simp_all
  have rest: "\<forall>j. Suc attempt \<le> j \<and> j < k \<longrightarrow> attemptFailed (fn j) \<and> \<not> ctxDone j"
    using Suc.prems(2) by simp
  show ?case
  proof (cases rule: attempt_cases [of fn attempt])
    case (ok r)
    then show ?thesis using here by simp
  next
    case (retry_after r seconds)
    then show ?thesis
      using ltm here(2) Suc.hyps(1) [OF d le rest]
      by (simp add: retryLoop_retry_after)
  next
    case backoff
    then show ?thesis
      using ltm here(2) Suc.hyps(1) [OF d le rest]
      by (simp add: retryLoop_backoff)
  qed
qed

lemma retryLoop_cancelled:
  assumes "k < MaxRetries config" and "attempt \<le> k" and "attemptFailed (fn k)" and "ctxDone k"
      and "\<forall>j. attempt \<le> j \<and> j < k \<longrightarrow> attemptFailed (fn j) \<and> \<not> ctxDone j"
  shows "fst (retryLoop config fn ctxDone attempt lastErr waits) = CtxErr"
  using assms(2,5)
proof (induction "k - attempt" arbitrary: attempt lastErr waits)
  case 0
  then have at: "attempt = k" by simp
  show ?case
  proof (cases rule: attempt_cases [of fn attempt])
    case (ok r)
    then show ?thesis using assms(3) at by simp
  next
    case (retry_after r seconds)
    then show ?thesis
      using assms(1,4) at by (simp add: retryLoop_retry_after)
  next
    case backoff
    then show ?thesis
      using assms(1,4) at by (simp add: retryLoop_backoff)
  qed
next
  case (Suc d)
  then have lt: "attempt < k" and d: "d = k - Suc attempt" by simp_all
  have le: "Suc attempt \<le> k" using lt by simp
  have ltm: "attempt < MaxRetries config" using lt assms(1) by simp
  have here: "attemptFailed (fn attempt)" "\<not> ctxDone attempt"
    using Suc.prems(2) lt by simp_all
  have rest: "\<forall>j. Suc attempt \<le> j \<and> j < k \<longrightarrow> attemptFailed (fn j) \<and> \<not> ctxDone j"
    using Suc.prems(2) by simp
  show ?case
  proof (cases rule: attempt_cases [of fn attempt])
    case (ok r)
    then show ?thesis using here by simp
  next
    case (retry_after r seconds)
    then show ?thesis
      using ltm here(2) Suc.hyps(1) [OF d le rest]
      by (simp add: retryLoop_retry_after)
  next
    case backoff
    then show ?thesis
      using ltm here(2) Suc.hyps(1) [OF d le rest]
      by (simp add: retryLoop_backoff)
  qed
qed

text \<open>
  Claim C7, as the code has it, with the default configuration (three retries, one
  second of initial backoff, a ceiling of thirty seconds). At attempt 0 to 3 the loop
  returns at once on a response below 500 other than 429. Before attempts 1 to 3 it
  waits: after a 429 response whose \<open>Retry-After\<close> header is an integer number of
  seconds that fits a 64-bit duration, the smaller of that and the ceiling; after a
  transport error, a 5xx response, or a 429 response whose \<open>Retry-After\<close> header is
  absent or not an integer, the smaller of the initial backoff times two to the attempt
  and the ceiling. A failed attempt 3 of the second kind gives up at once with its
  error, and past attempt 3 the loop gives up with the last error saved. As a whole:
  when all four attempts fail and no wait is cancelled the helper gives up with the
  error of the fourth; it returns the first response below 500 other than 429 when the
  attempts before it fail and their waits are not cancelled; and a cancellation during
  the wait that follows a failed attempt 0 to 2 ends it with the context's error.
\<close>

theorem RetryWithBackoff_behaviour:
  "RetryWithBackoff fn ctxDone = retryLoop DefaultRetryConfig fn ctxDone 0 [] []
   \<and> (attempt \<le> 3 \<and> fn attempt = Inr resp \<and> respStatusCode resp < 500
        \<and> respStatusCode resp \<noteq> 429 \<longrightarrow>
        retryLoop DefaultRetryConfig fn ctxDone attempt lastErr waits = (Returned resp, waits))
   \<and> (attempt < 3 \<and> fn attempt = Inr resp \<and> respStatusCode resp = 429
        \<and> respRetryAfter resp \<noteq> [] \<and> Atoi (respRetryAfter resp) = Some seconds
        \<and> - (2 ^ 63) \<le> seconds * Second \<and> seconds * Second < 2 ^ 63 \<longrightarrow>
        retryLoop DefaultRetryConfig fn ctxDone attempt lastErr waits =
          (if ctxDone attempt
           then (CtxErr, waits @ [(min (seconds * Second) (30 * Second), False)])
           else retryLoop DefaultRetryConfig fn ctxDone (Suc attempt) ''HTTP 429''
                  (waits @ [(min (seconds * Second) (30 * Second), True)])))
   \<and> (attempt < 3 \<and> attemptFailed (fn attempt)
        \<and> (\<forall>r. fn attempt = Inr r \<longrightarrow> retryAfterSeconds r = None) \<longrightarrow>
        retryLoop DefaultRetryConfig fn ctxDone attempt lastErr waits =
          (if ctxDone attempt
           then (CtxErr, waits @ [(min (1 * Second * 2 ^ attempt) (30 * Second), False)])
           else retryLoop DefaultRetryConfig fn ctxDone (Suc attempt) (attemptError (fn attempt))
                  (waits @ [(min (1 * Second * 2 ^ attempt) (30 * Second), True)])))
   \<and> (attemptFailed (fn 3) \<and> (\<forall>r. fn 3 = Inr r \<longrightarrow> retryAfterSeconds r = None) \<longrightarrow>
        retryLoop DefaultRetryConfig fn ctxDone 3 lastErr waits =
          (GaveUp (''request failed after 3 retries: '' @ attemptError (fn 3)), waits))
   \<and> (\<not> attempt \<le> 3 \<longrightarrow>
        retryLoop DefaultRetryConfig fn ctxDone attempt lastErr waits =
          (GaveUp (''request failed after 3 retries: '' @ lastErr), waits))
   \<and> ((\<forall>k \<le> 3. attemptFailed (fn k) \<and> \<not> ctxDone k) \<longrightarrow>
        fst (RetryWithBackoff fn ctxDone)
          = GaveUp (''request failed after 3 retries: '' @ attemptError (fn 3)))
   \<and> (\<forall>k r. k \<le> 3 \<and> fn k = Inr r \<and> respStatusCode r < 500 \<and> respStatusCode r \<noteq> 429
          \<and> (\<forall>j < k. attemptFailed (fn j) \<and> \<not> ctxDone j) \<longrightarrow>
        fst (RetryWithBackoff fn ctxDone) = Returned r)
   \<and> (\<forall>k. k < 3 \<and> attemptFailed (fn k) \<and> ctxDone k
          \<and> (\<forall>j < k. attemptFailed (fn j) \<and> \<not> ctxDone j) \<longrightarrow>
        fst (RetryWithBackoff fn ctxDone) = CtxErr)
   \<and> (RetryWithBackoff fn ctxDone = (GaveUp msg, waits') \<longrightarrow>
        (\<forall>k \<le> 3. attemptFailed (fn k))
        \<and> msg = ''request failed after 3 retries: '' @ attemptError (fn 3))
   \<and> (RetryWithBackoff fn ctxDone = (Returned resp0, waits0) \<longrightarrow>
        (\<exists>k \<le> 3. fn k = Inr resp0 \<and> respStatusCode resp0 < 500
           \<and> respStatusCode resp0 \<noteq> 429 \<and> (\<forall>j < k. attemptFailed (fn j))))"
proof -
  have c0: "RetryWithBackoff fn ctxDone = retryLoop DefaultRetryConfig fn ctxDone 0 [] []"
    by (simp add: RetryWithBackoff_def)
  have c1: "attempt \<le> 3 \<and> fn attempt = Inr resp \<and> respStatusCode resp < 500
        \<and> respStatusCode resp \<noteq> 429 \<longrightarrow>
        retryLoop DefaultRetryConfig fn ctxDone attempt lastErr waits = (Returned resp, waits)"
    by (simp add: retryLoop_returns MaxRetries_default)
  have c2: "attempt < 3 \<and> fn attempt = Inr resp \<and> respStatusCode resp = 429
        \<and> respRetryAfter resp \<noteq> [] \<and> Atoi (respRetryAfter resp) = Some seconds
        \<and> - (2 ^ 63) \<le> seconds * Second \<and> seconds * Second < 2 ^ 63 \<longrightarrow>
        retryLoop DefaultRetryConfig fn ctxDone attempt lastErr waits =
          (if ctxDone attempt
           then (CtxErr, waits @ [(min (seconds * Second) (30 * Second), False)])
           else retryLoop DefaultRetryConfig fn ctxDone (Suc attempt) ''HTTP 429''
                  (waits @ [(min (seconds * Second) (30 * Second), True)]))"
  proof
    assume a: "attempt < 3 \<and> fn attempt = Inr resp \<and> respStatusCode resp = 429
        \<and> respRetryAfter resp \<noteq> [] \<and> Atoi (respRetryAfter resp) = Some seconds
        \<and> - (2 ^ 63) \<le> seconds * Second \<and> seconds * Second < 2 ^ 63"
    then have ra: "retryAfterSeconds resp = Some seconds"
      by (simp add: retryAfterSeconds_def)
    have le: "attempt \<le> MaxRetries DefaultRetryConfig"
      using a by (simp add: MaxRetries_default)
    have w: "retryAfterWait DefaultRetryConfig seconds = min (seconds * Second) (30 * Second)"
      using a by (simp add: retryAfterWait_in_range)
    show "retryLoop DefaultRetryConfig fn ctxDone attempt lastErr waits =
          (if ctxDone attempt
           then (CtxErr, waits @ [(min (seconds * Second) (30 * Second), False)])
           else retryLoop DefaultRetryConfig fn ctxDone (Suc attempt) ''HTTP 429''
                  (waits @ [(min (seconds * Second) (30 * Second), True)]))"
      using retryLoop_retry_after [OF le _ ra, of fn ctxDone lastErr waits] a
      by (simp only: w)
  qed
  have c3: "attempt < 3 \<and> attemptFailed (fn attempt)
        \<and> (\<forall>r. fn attempt = Inr r \<longrightarrow> retryAfterSeconds r = None) \<longrightarrow>
        retryLoop DefaultRetryConfig fn ctxDone attempt lastErr waits =
          (if ctxDone attempt
           then (CtxErr, waits @ [(min (1 * Second * 2 ^ attempt) (30 * Second), False)])
           else retryLoop DefaultRetryConfig fn ctxDone (Suc attempt) (attemptError (fn attempt))
                  (waits @ [(min (1 * Second * 2 ^ attempt) (30 * Second), True)]))"
    using retryLoop_backoff [of attempt DefaultRetryConfig fn ctxDone lastErr waits]
    by (simp add: MaxRetries_default backoffWait_default)
  have c4: "attemptFailed (fn 3) \<and> (\<forall>r. fn 3 = Inr r \<longrightarrow> retryAfterSeconds r = None) \<longrightarrow>
        retryLoop DefaultRetryConfig fn ctxDone 3 lastErr waits =
          (GaveUp (''request failed after 3 retries: '' @ attemptError (fn 3)), waits)"
    using retryLoop_last [of 3 DefaultRetryConfig fn ctxDone lastErr waits]
    by (simp add: MaxRetries_default fmt_d_3)
  have c5: "\<not> attempt \<le> 3 \<longrightarrow>
        retryLoop DefaultRetryConfig fn ctxDone attempt lastErr waits =
          (GaveUp (''request failed after 3 retries: '' @ lastErr), waits)"
    using retryLoop_past [of attempt DefaultRetryConfig fn ctxDone lastErr waits]
    by (simp add: MaxRetries_default fmt_d_3)
  have c6: "(\<forall>k \<le> 3. attemptFailed (fn k) \<and> \<not> ctxDone k) \<longrightarrow>
        fst (RetryWithBackoff fn ctxDone)
          = GaveUp (''request failed after 3 retries: '' @ attemptError (fn 3))"
    using retryLoop_all_fail [of 0 DefaultRetryConfig fn ctxDone "[]" "[]"]
    by (simp add: RetryWithBackoff_def MaxRetries_default fmt_d_3)
  have c7: "\<forall>k r. k \<le> 3 \<and> fn k = Inr r \<and> respStatusCode r < 500 \<and> respStatusCode r \<noteq> 429
          \<and> (\<forall>j < k. attemptFailed (fn j) \<and> \<not> ctxDone j) \<longrightarrow>
        fst (RetryWithBackoff fn ctxDone) = Returned r"
  proof (intro allI impI)
    fix k r
    assume a: "k \<le> 3 \<and> fn k = Inr r \<and> respStatusCode r < 500 \<and> respStatusCode r \<noteq> 429
          \<and> (\<forall>j < k. attemptFailed (fn j) \<and> \<not> ctxDone j)"
    then have "fst (retryLoop DefaultRetryConfig fn ctxDone 0 [] []) = Returned r"
      by (intro retryLoop_first_success [of k]) (simp_all add: MaxRetries_default)
    then show "fst (RetryWithBackoff fn ctxDone) = Returned r"
      by (simp add: RetryWithBackoff_def)
  qed
  have c8: "\<forall>k. k < 3 \<and> attemptFailed (fn k) \<and> ctxDone k
          \<and> (\<forall>j < k. attemptFailed (fn j) \<and> \<not> ctxDone j) \<longrightarrow>
        fst (RetryWithBackoff fn ctxDone) = CtxErr"
  proof (intro allI impI)
    fix k
    assume a: "k < 3 \<and> attemptFailed (fn k) \<and> ctxDone k
          \<and> (\<forall>j < k. attemptFailed (fn j) \<and> \<not> ctxDone j)"
    then have "fst (retryLoop DefaultRetryConfig fn ctxDone 0 [] []) = CtxErr"
      by (intro retryLoop_cancelled [of k]) (simp_all add: MaxRetries_default)
    then show "fst (RetryWithBackoff fn ctxDone) = CtxErr"
      by (simp add: RetryWithBackoff_def)
  qed
  have c9: "RetryWithBackoff fn ctxDone = (GaveUp msg, waits') \<longrightarrow>
        (\<forall>k \<le> 3. attemptFailed (fn k))
        \<and> msg = ''request failed after 3 retries: '' @ attemptError (fn 3)"
  proof
    assume g: "RetryWithBackoff fn ctxDone = (GaveUp msg, waits')"
    have "(\<forall>k. 0 \<le> k \<and> k \<le> MaxRetries DefaultRetryConfig \<longrightarrow> attemptFailed (fn k))
         \<and> msg = ''request failed after '' @ fmt_d (int (MaxRetries DefaultRetryConfig))
                   @ '' retries: '' @ attemptError (fn (MaxRetries DefaultRetryConfig))"
      using g unfolding RetryWithBackoff_def by (rule retryLoop_gave_up) simp
    then show "(\<forall>k \<le> 3. attemptFailed (fn k))
        \<and> msg = ''request failed after 3 retries: '' @ attemptError (fn 3)"
      by (simp add: MaxRetries_default fmt_d_3)
  qed
  have c10: "RetryWithBackoff fn ctxDone = (Returned resp0, waits0) \<longrightarrow>
        (\<exists>k \<le> 3. fn k = Inr resp0 \<and> respStatusCode resp0 < 500
           \<and> respStatusCode resp0 \<noteq> 429 \<and> (\<forall>j < k. attemptFailed (fn j)))"
  proof
    assume g: "RetryWithBackoff fn ctxDone = (Returned resp0, waits0)"
    have "\<exists>k. 0 \<le> k \<and> k \<le> MaxRetries DefaultRetryConfig \<and> fn k = Inr resp0
             \<and> respStatusCode resp0 < 500 \<and> respStatusCode resp0 \<noteq> 429
             \<and> (\<forall>j. 0 \<le> j \<and> j < k \<longrightarrow> attemptFailed (fn j))"
      using g unfolding RetryWithBackoff_def by (rule retryLoop_returned) simp
    then show "\<exists>k \<le> 3. fn k = Inr resp0 \<and> respStatusCode resp0 < 500
           \<and> respStatusCode resp0 \<noteq> 429 \<and> (\<forall>j < k. attemptFailed (fn j))"
      by (simp add: MaxRetries_default)
  qed
  show ?thesis
    using c0 c1 c2 c3 c4 c5 c6 c7 c8 c9 c10 by (intro conjI)
qed

lemmas retry_eval =
  RetryWithBackoff_def retryLoop.simps DefaultRetryConfig_def retryAfterSeconds_def
  retryAfterWait_def backoffWait_def Atoi_def digit_val_def wrap64_def Second_def
  always429_def alwaysStatus_def rateLimitedOnce_def neverDone_def doneAt_def fmt_d_def
  digits_nat.simps digit_char_def Let_def

text \<open>
  Runs of the helper: a remote side that answers 429 with \<open>Retry-After: 2\<close> once and 200
  afterwards (one wait of two seconds, then the response); one that always answers 503
  (waits of one, two and four seconds, then the last error); one that answers 404
  (returned at once); a cancellation during the second wait; and the loop entered past
  the last attempt.
\<close>

theorem RetryWithBackoff_behaviour_witness:
  "RetryWithBackoff rateLimitedOnce neverDone
     = (Returned \<lparr>respStatusCode = 200, respBody = ''ok'', respRetryAfter = []\<rparr>,
        [(2000000000, True)])
   \<and> RetryWithBackoff (alwaysStatus 503) neverDone
     = (GaveUp ''request failed after 3 retries: HTTP 503'',
        [(1000000000, True), (2000000000, True), (4000000000, True)])
   \<and> RetryWithBackoff (alwaysStatus 404) neverDone
     = (Returned \<lparr>respStatusCode = 404, respBody = [], respRetryAfter = []\<rparr>, [])
   \<and> RetryWithBackoff (alwaysStatus 500) (doneAt 1)
     = (CtxErr, [(1000000000, True), (2000000000, False)])
   \<and> retryLoop DefaultRetryConfig (alwaysStatus 503) neverDone 3 ''HTTP 503'' []
     = (GaveUp ''request failed after 3 retries: HTTP 503'', [])
   \<and> retryLoop DefaultRetryConfig (alwaysStatus 503) neverDone 4 ''HTTP 503'' []
     = (GaveUp ''request failed after 3 retries: HTTP 503'', [])"
proof -
  have once: "RetryWithBackoff rateLimitedOnce neverDone
     = (Returned \<lparr>respStatusCode = 200, respBody = ''ok'', respRetryAfter = []\<rparr>,
        [(2000000000, True)])"
    using RetryWithBackoff_behaviour [where fn = rateLimitedOnce and ctxDone = neverDone
      and attempt = 0
      and resp = "\<lparr>respStatusCode = 429, respBody = [], respRetryAfter = ''2''\<rparr>"
      and seconds = 2 and lastErr = "[]" and waits = "[]"
      and msg = "[]" and waits' = "[]"
      and resp0 = "\<lparr>respStatusCode = 200, respBody = ''ok'', respRetryAfter = []\<rparr>"
      and waits0 = "[(2000000000, True)]"]
    by (simp add: retry_eval)
  have unavailable: "RetryWithBackoff (alwaysStatus 503) neverDone
     = (GaveUp ''request failed after 3 retries: HTTP 503'',
        [(1000000000, True), (2000000000, True), (4000000000, True)])
    \<and> retryLoop DefaultRetryConfig (alwaysStatus 503) neverDone 3 ''HTTP 503'' []
     = (GaveUp ''request failed after 3 retries: HTTP 503'', [])"
    using RetryWithBackoff_behaviour [where fn = "alwaysStatus 503" and ctxDone = neverDone
      and attempt = 0
      and resp = "\<lparr>respStatusCode = 503, respBody = [], respRetryAfter = []\<rparr>"
      and seconds = 0 and lastErr = "''HTTP 503''" and waits = "[]"
      and msg = "''request failed after 3 retries: HTTP 503''"
      and waits' = "[(1000000000, True), (2000000000, True), (4000000000, True)]"
      and resp0 = "\<lparr>respStatusCode = 503, respBody = [], respRetryAfter = []\<rparr>"
      and waits0 = "[]"]
    by (simp add: retry_eval)
  have missing: "RetryWithBackoff (alwaysStatus 404) neverDone
     = (Returned \<lparr>respStatusCode = 404, respBody = [], respRetryAfter = []\<rparr>, [])"
    using RetryWithBackoff_behaviour [where fn = "alwaysStatus 404" and ctxDone = neverDone
      and attempt = 0
      and resp = "\<lparr>respStatusCode = 404, respBody = [], respRetryAfter = []\<rparr>"
      and seconds = 0 and lastErr = "[]" and waits = "[]"
      and msg = "[]" and waits' = "[]"
      and resp0 = "\<lparr>respStatusCode = 404, respBody = [], respRetryAfter = []\<rparr>"
      and waits0 = "[]"]
    by (simp add: retry_eval)
  have cancelled: "RetryWithBackoff (alwaysStatus 500) (doneAt 1)
     = (CtxErr, [(1000000000, True), (2000000000, False)])"
    using RetryWithBackoff_behaviour [where fn = "alwaysStatus 500" and ctxDone = "doneAt 1"
      and attempt = 1
      and resp = "\<lparr>respStatusCode = 500, respBody = [], respRetryAfter = []\<rparr>"
      and seconds = 0 and lastErr = "''HTTP 500''" and waits = "[(1000000000, True)]"
      and msg = "[]" and waits' = "[]"
      and resp0 = "\<lparr>respStatusCode = 500, respBody = [], respRetryAfter = []\<rparr>"
      and waits0 = "[]"]
    by (simp add: retry_eval)
  have past: "retryLoop DefaultRetryConfig (alwaysStatus 503) neverDone 4 ''HTTP 503'' []
     = (GaveUp ''request failed after 3 retries: HTTP 503'', [])"
    using RetryWithBackoff_behaviour [where fn = "alwaysStatus 503" and ctxDone = neverDone
      and attempt = 4
      and resp = "\<lparr>respStatusCode = 503, respBody = [], respRetryAfter = []\<rparr>"
      and seconds = 0 and lastErr = "''HTTP 503''" and waits = "[]"
      and msg = "[]" and waits' = "[]"
      and resp0 = "\<lparr>respStatusCode = 503, respBody = [], respRetryAfter = []\<rparr>"
      and waits0 = "[]"]
    by (simp add: retry_eval)
  show ?thesis
    using once unavailable missing cancelled past by simp
qed

text \<open>
  A 429 response may carry its \<open>Retry-After\<close> as a date. The header is there on every
  response, and the waits are the exponential backoff of one, two and four seconds.
\<close>

theorem retry_after_date_counterexample:
  "RetryWithBackoff (always429 ''Wed, 21 Oct 2015 07:28:00 GMT'') neverDone
     = (GaveUp ''request failed after 3 retries: HTTP 429'',
        [(1000000000, True), (2000000000, True), (4000000000, True)])"
  by (simp add: retry_eval)

text \<open>
  Two behaviours of the \<open>Retry-After\<close> branch that the statement above leaves out. A
  value of 9223372037 seconds does not fit the 64-bit duration: the product wraps to a
  negative duration, the ceiling is not applied, and each timer fires at once. And the
  branch goes on to the next iteration without the check for the last attempt that the
  backoff branch has, so it waits once more after attempt 3 before giving up.
\<close>

lemma retry_after_overflow:
  "RetryWithBackoff (always429 ''9223372037'') neverDone
     = (GaveUp ''request failed after 3 retries: HTTP 429'',
        [(- 9223372036709551616, True), (- 9223372036709551616, True),
         (- 9223372036709551616, True), (- 9223372036709551616, True)])"
  by (simp add: retry_eval)

lemma retry_after_waits_after_last_attempt:
  "RetryWithBackoff (always429 ''2'') neverDone
     = (GaveUp ''request failed after 3 retries: HTTP 429'',
        [(2000000000, True), (2000000000, True), (2000000000, True), (2000000000, True)])"
  by (simp add: retry_eval)

end
